theory Spec2Isabelle
  imports Complex_Main "HOL-Library.AList"
begin

section \<open>JavaScript values and strings\<close>

text \<open>
  The library is a single TypeScript file, \<open>index.ts\<close>. Values of type \<open>any\<close>
  (query parameters, request payloads, decoded JSON) are modelled by \<open>jsval\<close>. A number
  \<open>JNum n\<close> is an integer of magnitude below \<open>10^21\<close>, the range in which \<open>String\<close> prints
  every digit (\<open>NaN\<close>, infinities, fractions and larger numbers are outside \<open>jsval\<close>);
  strings are byte strings, and an object is the list of its entries in enumeration order.
\<close>

datatype native_kind = FormData | Blob | ArrayBuffer | URLSearchParams

datatype jsval =
    JUndefined
  | JNull
  | JBool bool
  | JNum int
  | JStr string
  | JArr "jsval list"
  | JObj "(string \<times> jsval) list"
  | JNative native_kind string

text \<open>A slot of a result tuple is \<open>null\<close> or holds something: \<open>null\<close> is \<open>None\<close>.\<close>

fun nullable :: "jsval \<Rightarrow> jsval option" where
  "nullable JNull = None"
| "nullable JUndefined = None"
| "nullable v = Some v"

fun join :: "string \<Rightarrow> string list \<Rightarrow> string" where
  "join sep [] = []"
| "join sep [x] = x"
| "join sep (x # y # ys) = x @ sep @ join sep (y # ys)"

text \<open>Decimal digits of a natural number, most significant first.\<close>

definition digit_char :: "nat \<Rightarrow> char" where
  "digit_char d = char_of (d + 48)"

fun string_of_nat :: "nat \<Rightarrow> string" where
  "string_of_nat n =
     (if 10 \<le> n then string_of_nat (n div 10) @ [digit_char (n mod 10)]
      else [digit_char n])"

declare string_of_nat.simps [simp del]

text \<open>\<open>String(v)\<close>, as \<open>buildUrl\<close> applies it to every query value.\<close>

fun String_js :: "jsval \<Rightarrow> string" where
  "String_js JUndefined = ''undefined''"
| "String_js JNull = ''null''"
| "String_js (JBool b) = (if b then ''true'' else ''false'')"
| "String_js (JNum n) =
     (if n < 0 then ''-'' @ string_of_nat (nat (- n)) else string_of_nat (nat n))"
| "String_js (JStr s) = s"
| "String_js (JArr vs) =
     join '','' (map (\<lambda>v. if v = JUndefined \<or> v = JNull then [] else String_js v) vs)"
| "String_js (JObj kvs) = ''[object Object]''"
| "String_js (JNative k s) =
     (case k of
        FormData \<Rightarrow> ''[object FormData]''
      | Blob \<Rightarrow> ''[object Blob]''
      | ArrayBuffer \<Rightarrow> ''[object ArrayBuffer]''
      | URLSearchParams \<Rightarrow> s)"

text \<open>\<open>String.prototype.toLowerCase\<close> on ASCII letters (header names are ASCII tokens).\<close>

definition lower_char :: "char \<Rightarrow> char" where
  "lower_char c =
     (let n = (of_char c :: nat) in if 65 \<le> n \<and> n \<le> 90 then char_of (n + 32) else c)"

definition toLowerCase :: "string \<Rightarrow> string" where
  "toLowerCase s = map lower_char s"

text \<open>\<open>s.replace(/\/$/, "")\<close> and \<open>s.replace(/^\//, "")\<close>: at most one slash goes.\<close>

definition strip_trailing_slash :: "string \<Rightarrow> string" where
  "strip_trailing_slash s = (if s \<noteq> [] \<and> last s = CHR ''/'' then butlast s else s)"

definition strip_leading_slash :: "string \<Rightarrow> string" where
  "strip_leading_slash s = (case s of [] \<Rightarrow> [] | c # cs \<Rightarrow> if c = CHR ''/'' then cs else s)"

section \<open>The platform's \<open>URL\<close> and \<open>URLSearchParams\<close>\<close>

text \<open>
  \<open>URL\<close> is the host's class, not code of the library. A parsed URL is a record of its
  serialised parts; the parser itself (\<open>new URL(input, base)\<close>) is a field of the platform
  below. What the library does with a URL, appending query pairs and serialising, follows
  the URL standard: \<open>searchParams.append\<close> adds one pair at the end of the list and
  rewrites the query from the whole list with the \<open>application/x-www-form-urlencoded\<close>
  serialiser.
\<close>

record URL =
  url_base :: string
  url_query :: "string option"
  url_pairs :: "(string \<times> string) list"
  url_fragment :: "string option"

definition hex_digit :: "nat \<Rightarrow> char" where
  "hex_digit n = (if n < 10 then char_of (48 + n) else char_of (55 + n))"

definition urlencode_byte :: "char \<Rightarrow> string" where
  "urlencode_byte c =
     (let n = (of_char c :: nat) in
      if n = 32 then ''+''
      else if (48 \<le> n \<and> n \<le> 57) \<or> (65 \<le> n \<and> n \<le> 90) \<or> (97 \<le> n \<and> n \<le> 122)
              \<or> n = 42 \<or> n = 45 \<or> n = 46 \<or> n = 95
      then [c]
      else [CHR ''%'', hex_digit (n div 16), hex_digit (n mod 16)])"

definition urlencode :: "string \<Rightarrow> string" where
  "urlencode s = concat (map urlencode_byte s)"

definition serialize_pairs :: "(string \<times> string) list \<Rightarrow> string" where
  "serialize_pairs ps = join ''&'' (map (\<lambda>(k, v). urlencode k @ ''='' @ urlencode v) ps)"

definition searchParams_append :: "string \<Rightarrow> string \<Rightarrow> URL \<Rightarrow> URL" where
  "searchParams_append k v u =
     (let ps = url_pairs u @ [(k, v)]; q = serialize_pairs ps
      in u\<lparr>url_pairs := ps, url_query := (if q = [] then None else Some q)\<rparr>)"

definition URL_toString :: "URL \<Rightarrow> string" where
  "URL_toString u =
     url_base u
     @ (case url_query u of None \<Rightarrow> [] | Some q \<Rightarrow> ''?'' @ q)
     @ (case url_fragment u of None \<Rightarrow> [] | Some f \<Rightarrow> ''#'' @ f)"

section \<open>Requests, responses and errors\<close>

text \<open>
  \<open>HeadersInit\<close> arrives as a \<open>Headers\<close> object, an array of pairs or a plain record;
  \<open>normalizeHeaders\<close> takes the entries of any of them, lower-cases the names and builds a
  record with \<open>Object.fromEntries\<close> (a later entry overwrites an earlier one of the same
  name, in place).
\<close>

datatype headers_init =
    HeadersObject "(string \<times> string) list"
  | HeadersArray "(string \<times> string) list"
  | HeadersRecord "(string \<times> string) list"

fun entries_of :: "headers_init \<Rightarrow> (string \<times> string) list" where
  "entries_of (HeadersObject es) = es"
| "entries_of (HeadersArray es) = es"
| "entries_of (HeadersRecord es) = es"

definition fromEntries :: "(string \<times> 'a) list \<Rightarrow> (string \<times> 'a) list" where
  "fromEntries es = fold (\<lambda>(k, v) m. AList.update k v m) es []"

definition normalizeHeaders :: "headers_init option \<Rightarrow> (string \<times> string) list" where
  "normalizeHeaders hs =
     (case hs of
        None \<Rightarrow> []
      | Some h \<Rightarrow> fromEntries (map (\<lambda>(k, v). (toLowerCase k, v)) (entries_of h)))"

text \<open>
  A \<open>Response\<close> as the Fetch standard describes it: header names are stored lower-cased and
  looked up case-insensitively, \<open>ok\<close> is the status range 200 to 299, and the body can be
  read once.
\<close>

record response =
  status :: int
  statusText :: string
  response_headers :: "(string \<times> string) list"
  response_body :: "string option"
  bodyUsed :: bool

definition ok :: "response \<Rightarrow> bool" where
  "ok r = (200 \<le> status r \<and> status r \<le> 299)"

definition headers_get :: "response \<Rightarrow> string \<Rightarrow> string option" where
  "headers_get r n = map_of (response_headers r) (toLowerCase n)"

definition headers_has :: "response \<Rightarrow> string \<Rightarrow> bool" where
  "headers_has r n = (headers_get r n \<noteq> None)"

text \<open>\<open>interface HttpError extends Error\<close>: the four extra fields are optional.\<close>

record js_error =
  name :: string
  message :: string
  err_response :: "response option"
  err_status :: "int option"
  err_statusText :: "string option"
  err_url :: "string option"

definition Error :: "string \<Rightarrow> js_error" where
  "Error msg = \<lparr>name = ''Error'', message = msg, err_response = None, err_status = None,
     err_statusText = None, err_url = None\<rparr>"

definition AbortError :: js_error where
  "AbortError = (Error ''This operation was aborted'')\<lparr>name := ''AbortError''\<rparr>"

definition TypeError :: "string \<Rightarrow> js_error" where
  "TypeError msg = (Error msg)\<lparr>name := ''TypeError''\<rparr>"

definition SyntaxError :: "string \<Rightarrow> js_error" where
  "SyntaxError msg = (Error msg)\<lparr>name := ''SyntaxError''\<rparr>"

text \<open>
  \<open>response.clone()\<close> throws a \<open>TypeError\<close> when the body has been used; otherwise the
  clone has the body to itself.
\<close>

definition response_clone :: "response \<Rightarrow> js_error + response" where
  "response_clone r =
     (if bodyUsed r then Inl (TypeError ''Response body is already used'') else Inr r)"

text \<open>
  Anything can be thrown, and whatever the transport throws ends up in the error slot of
  the result. A thrown value or the content of an error slot is a \<open>caught option\<close>:
  \<open>None\<close> stands for \<open>null\<close> and \<open>undefined\<close> (the program cannot tell them apart: both
  are falsy and reading a property of either throws), \<open>Prim\<close> is a boolean, number or
  string, and \<open>Err\<close> is an object, given by the fields of an error. Reading \<open>.name\<close> of
  a primitive gives \<open>undefined\<close>, here \<open>None\<close>; an object without a name behaves as one
  with a name other than the one the program compares with.
\<close>

datatype primitive = PBool bool | PNum int | PStr string

datatype caught = Prim primitive | Err js_error

fun name_of :: "caught \<Rightarrow> string option" where
  "name_of (Prim p) = None"
| "name_of (Err e) = Some (name e)"

fun truthy :: "caught option \<Rightarrow> bool" where
  "truthy None = False"
| "truthy (Some (Prim (PBool b))) = b"
| "truthy (Some (Prim (PNum n))) = (n \<noteq> 0)"
| "truthy (Some (Prim (PStr s))) = (s \<noteq> [])"
| "truthy (Some (Err e)) = True"

text \<open>
  An \<open>AbortSignal\<close> is described by the time (in ms on the world's clock) at which it is
  aborted, if ever, and the reason it then carries: \<open>controller.abort()\<close> without an
  argument gives the \<open>AbortError\<close>, \<open>controller.abort(x)\<close> gives \<open>x\<close>, whatever it is.
\<close>

record abort_signal =
  abort_time :: "int option"
  reason :: "caught option"

text \<open>\<open>RequestInit\<close>; its \<open>method\<close> is the field \<open>http_method\<close>.\<close>

record request_init =
  http_method :: "string option"
  body :: "jsval option"
  headers :: "headers_init option"
  signal :: "abort_signal option"

text \<open>
  \<open>type FetchResult<T> = [T, null] | [null, Error]\<close>: a pair of nullable slots. The type
  promises an \<open>Error\<close> in the second slot; at run time it holds whatever was caught.
\<close>

type_synonym 'a FetchResult = "'a option \<times> caught option"

section \<open>The world: clock, timers and the transport\<close>

text \<open>
  The asynchronous code runs one step at a time, so it is modelled by passing a world:
  the clock, the trace of what was done (transport calls and sleeps) and the host's timer.
  A promise that never settles is the value \<open>None\<close> of the call that awaits it.

  \<open>timer_wait n\<close> is how long the host's \<open>setTimeout\<close> really waits when asked for \<open>n\<close> ms:
  \<open>n\<close> itself for delays from 1 to \<open>2^31 - 1\<close>; outside that range hosts differ (Node
  waits 1 ms). A delay with a fraction is cut to its integer part before the timer is set.

  The transport (\<open>fetchFn\<close>) is injected. It sees the world, the URL and the options and
  either never settles or settles, after some time, with a response or by throwing.
\<close>

datatype event = Fetch string request_init | Sleep int

record world =
  now :: int
  trace :: "event list"
  timer_wait :: "int \<Rightarrow> int"

datatype settled = Resolved response | Threw "caught option"

type_synonym fetchfn = "world \<Rightarrow> string \<Rightarrow> request_init \<Rightarrow> (settled \<times> int) option"

definition sleep :: "int \<Rightarrow> world \<Rightarrow> world" where
  "sleep ms w = w\<lparr>now := now w + max 0 (timer_wait w ms), trace := trace w @ [Sleep ms]\<rparr>"

definition call_fetch ::
  "fetchfn \<Rightarrow> string \<Rightarrow> request_init \<Rightarrow> world \<Rightarrow> (settled \<times> world) option" where
  "call_fetch f u ri w =
     (case f w u ri of
        None \<Rightarrow> None
      | Some (s, d) \<Rightarrow> Some (s, w\<lparr>now := now w + max 0 d, trace := trace w @ [Fetch u ri]\<rparr>))"

fun is_Fetch :: "event \<Rightarrow> bool" where
  "is_Fetch (Fetch u ri) = True"
| "is_Fetch (Sleep ms) = False"

definition calls :: "world \<Rightarrow> nat" where
  "calls w = length (filter is_Fetch (trace w))"

text \<open>
  The host functions the library calls: the URL parser (\<open>None\<close> when \<open>new URL\<close> throws),
  \<open>window.location.origin\<close> when there is a window, \<open>JSON.stringify\<close>, \<open>JSON.parse\<close>
  (\<open>None\<close> when it throws), \<open>Number\<close> and \<open>Date.parse\<close> (\<open>None\<close> for \<open>NaN\<close>), the
  parser behind \<open>response.formData()\<close> (\<open>None\<close> when it throws), and the global
  \<open>fetch\<close>. \<open>Number\<close> gives the exact value of the numeral it reads; a string that reads
  as an infinity is not covered.
\<close>

record platform =
  URL_new :: "string \<Rightarrow> string option \<Rightarrow> URL option"
  window_origin :: "string option"
  JSON_stringify :: "jsval \<Rightarrow> string"
  JSON_parse :: "string \<Rightarrow> jsval option"
  Number_js :: "string \<Rightarrow> rat option"
  Date_parse :: "string \<Rightarrow> int option"
  FormData_parse :: "string \<Rightarrow> string option"
  global_fetch :: fetchfn

section \<open>The class \<open>NeatFetch\<close>\<close>

text \<open>\<open>interface FetchOptions extends RequestInit\<close>; an absent field is \<open>None\<close>.\<close>

record fetch_options = request_init +
  fetchFn :: "fetchfn option"
  params :: "(string \<times> jsval) list option"
  timeout :: "int option"
  retry :: "int option"
  retryDelay :: "int option"
  baseURL :: "string option"

datatype 'a promise = Fulfilled 'a | RejectedWith js_error | Pending

record neat_fetch =
  url :: string
  fetchOptions :: fetch_options
  this_params :: "(string \<times> jsval) list"
  finalUrl :: string
  requestInit :: request_init
  timeoutMs :: "int option"
  retryCount :: int
  retryDelayMs :: int
  headersObj :: "(string \<times> string) list"
  executionPromise :: "response FetchResult promise option"
  this_fetchFn :: fetchfn

text \<open>\<open>x || d\<close> on an optional number: \<open>undefined\<close> and \<open>0\<close> are falsy.\<close>

definition or_num :: "int option \<Rightarrow> int \<Rightarrow> int" where
  "or_num x d = (case x of None \<Rightarrow> d | Some n \<Rightarrow> if n = 0 then d else n)"

text \<open>The body of the \<open>forEach\<close> over \<open>Object.entries(this.params)\<close>.\<close>

definition add_param :: "string \<times> jsval \<Rightarrow> URL \<Rightarrow> URL" where
  "add_param kv u =
     (case kv of (key, v) \<Rightarrow>
        if v \<noteq> JUndefined \<and> v \<noteq> JNull then
          (case v of
             JArr vs \<Rightarrow> fold (\<lambda>e. searchParams_append key (String_js e)) vs u
           | _ \<Rightarrow> searchParams_append key (String_js v) u)
        else u)"

text \<open>\<open>buildUrl\<close>; \<open>None\<close> when the last \<open>new URL\<close> throws.\<close>

definition buildUrl ::
  "platform \<Rightarrow> string \<Rightarrow> fetch_options \<Rightarrow> (string \<times> jsval) list \<Rightarrow> string option" where
  "buildUrl P this_url opts ps =
     (let isAbsolute = (URL_new P this_url None \<noteq> None);
          targetUrl =
            (case baseURL opts of
               Some b \<Rightarrow>
                 if b \<noteq> [] \<and> \<not> isAbsolute
                 then strip_trailing_slash b @ ''/'' @ strip_leading_slash this_url
                 else this_url
             | None \<Rightarrow> this_url);
          urlInstance =
            (case URL_new P targetUrl None of
               Some u \<Rightarrow> Some u
             | None \<Rightarrow>
                 (case window_origin P of
                    Some origin \<Rightarrow>
                      if origin \<noteq> [] then URL_new P targetUrl (Some origin)
                      else URL_new P targetUrl (Some ''http://localhost'')
                  | None \<Rightarrow> URL_new P targetUrl (Some ''http://localhost'')))
      in case urlInstance of
           None \<Rightarrow> None
         | Some u \<Rightarrow> Some (URL_toString (fold add_param ps u)))"

text \<open>\<open>options.fetchFn ?? globalThis.fetch.bind(globalThis)\<close>.\<close>

definition transport :: "platform \<Rightarrow> fetch_options \<Rightarrow> fetchfn" where
  "transport P options = (case fetchFn options of Some f \<Rightarrow> f | None \<Rightarrow> global_fetch P)"

text \<open>
  The constructor; \<open>None\<close> when \<open>buildUrl\<close> throws. \<open>requestInit\<close> is what remains
  of the options once \<open>params\<close>, \<open>timeout\<close>, \<open>retry\<close>, \<open>retryDelay\<close> and \<open>baseURL\<close> are
  taken out. (In the source \<open>fetchFn\<close> stays among its properties; the transport
  ignores it and the record leaves it out.)
\<close>

definition NeatFetch :: "platform \<Rightarrow> string \<Rightarrow> fetch_options \<Rightarrow> neat_fetch option" where
  "NeatFetch P u options =
     (let ps = (case params options of None \<Rightarrow> [] | Some p \<Rightarrow> p)
      in case buildUrl P u options ps of
           None \<Rightarrow> None
         | Some fu \<Rightarrow>
             Some \<lparr>url = u,
                   fetchOptions = options,
                   this_params = ps,
                   finalUrl = fu,
                   requestInit = \<lparr>http_method = http_method options, body = body options,
                                  headers = headers options, signal = signal options\<rparr>,
                   timeoutMs = timeout options,
                   retryCount = or_num (retry options) 0,
                   retryDelayMs = or_num (retryDelay options) 1000,
                   headersObj = normalizeHeaders (headers options),
                   executionPromise = None,
                   this_fetchFn = transport P options\<rparr>)"

section \<open>The retry loop\<close>

text \<open>
  One attempt of \<open>executeWithRetry\<close> returns a result tuple, goes on to
  \<open>this.executeWithRetry(attempt + 1)\<close>, or throws out of its \<open>catch\<close> block, which rejects
  the promise of the \<open>async\<close> method.
\<close>

datatype 'a step = Return 'a | Recurse | Throw js_error

text \<open>
  \<open>new AbortController()\<close> with its timer: when \<open>this.timeoutMs\<close> is truthy the
  controller's signal is aborted when the timer set for \<open>timeoutMs\<close> fires.
\<close>

definition controller_signal :: "neat_fetch \<Rightarrow> world \<Rightarrow> abort_signal" where
  "controller_signal this w =
     \<lparr>abort_time =
        (case timeoutMs this of
           None \<Rightarrow> None
         | Some ms \<Rightarrow> if ms = 0 then None else Some (now w + max 0 (timer_wait w ms))),
      reason = Some (Err AbortError)\<rparr>"

definition requestInitWithSignal :: "neat_fetch \<Rightarrow> world \<Rightarrow> request_init" where
  "requestInitWithSignal this w =
     (requestInit this)\<lparr>signal :=
        Some (case signal (requestInit this) of
                Some s \<Rightarrow> s
              | None \<Rightarrow> controller_signal this w)\<rparr>"

text \<open>The error built for a response that is not ok, with the clone attached.\<close>

definition HttpError :: "neat_fetch \<Rightarrow> response \<Rightarrow> response \<Rightarrow> js_error" where
  "HttpError this r clone =
     (Error (''HTTP '' @ String_js (JNum (status r)) @ '': '' @ statusText r))
       \<lparr>err_response := Some clone,
        err_status := Some (status r),
        err_statusText := Some (statusText r),
        err_url := Some (finalUrl this)\<rparr>"

text \<open>
  The \<open>Retry-After\<close> value in ms: \<open>Number(ra) * 1000\<close>, which may have a fraction, or the
  distance to the HTTP date.
\<close>

definition retryAfterMs :: "platform \<Rightarrow> world \<Rightarrow> string \<Rightarrow> rat" where
  "retryAfterMs P w ra =
     (case Number_js P ra of
        Some sec \<Rightarrow> sec * 1000
      | None \<Rightarrow>
          (case Date_parse P ra of
             Some date \<Rightarrow> of_int (max 0 (date - now w))
           | None \<Rightarrow> 0))"

definition retry_after_wait :: "platform \<Rightarrow> response \<Rightarrow> world \<Rightarrow> world" where
  "retry_after_wait P r w =
     (if status r = 429 \<and> headers_has r ''Retry-After'' then
        (case headers_get r ''Retry-After'' of
           None \<Rightarrow> w
         | Some ra \<Rightarrow>
             if retryAfterMs P w ra > 0 then sleep \<lfloor>retryAfterMs P w ra\<rfloor> w else w)
      else w)"

text \<open>
  The \<open>catch (fetchError)\<close> block. \<open>fetchError.name\<close> is read only when
  \<open>attempt < this.retryCount\<close>, and reading it throws when \<open>fetchError\<close> is \<open>null\<close> or
  \<open>undefined\<close>.
\<close>

definition catch_block ::
  "neat_fetch \<Rightarrow> int \<Rightarrow> caught option \<Rightarrow> world \<Rightarrow> (response FetchResult step \<times> world) option" where
  "catch_block this attempt fetchError w =
     (if attempt < retryCount this then
        (case fetchError of
           None \<Rightarrow> Some (Throw (TypeError ''Cannot read properties of null (reading name)''), w)
         | Some x \<Rightarrow>
             if name_of x \<noteq> Some ''AbortError''
             then Some (Recurse, sleep (retryDelayMs this * (attempt + 1)) w)
             else Some (Return (None, fetchError), w))
      else Some (Return (None, fetchError), w))"

text \<open>
  The \<open>try\<close> block. \<open>response.clone()\<close> stands inside it, so when it throws the \<open>catch\<close>
  block runs with that error.
\<close>

definition attempt_once ::
  "platform \<Rightarrow> neat_fetch \<Rightarrow> int \<Rightarrow> world \<Rightarrow> (response FetchResult step \<times> world) option" where
  "attempt_once P this attempt w =
     (case call_fetch (this_fetchFn this) (finalUrl this) (requestInitWithSignal this w) w of
        None \<Rightarrow> None
      | Some (Resolved r, w1) \<Rightarrow>
          if \<not> ok r then
            (case response_clone r of
               Inl cloneError \<Rightarrow> catch_block this attempt (Some (Err cloneError)) w1
             | Inr clone \<Rightarrow>
                 (let error = HttpError this r clone;
                      w2 = retry_after_wait P r w1
                  in if attempt < retryCount this \<and> (status r \<ge> 500 \<or> status r = 429)
                     then Some (Recurse, sleep (retryDelayMs this * (attempt + 1)) w2)
                     else Some (Return (None, Some (Err error)), w2)))
          else Some (Return (Some r, None), w1)
      | Some (Threw fetchError, w1) \<Rightarrow> catch_block this attempt fetchError w1)"

lemma attempt_once_Recurse_bound:
  "attempt_once P this attempt w = Some (Recurse, w') \<Longrightarrow> attempt < retryCount this"
  by (auto simp: attempt_once_def catch_block_def Let_def
      split: option.splits prod.splits settled.splits sum.splits if_splits)

text \<open>
  The whole run: \<open>None\<close> when it never settles, \<open>Inr\<close> the tuple it returns, \<open>Inl\<close> the
  error it rejects with.
\<close>

function executeWithRetry ::
  "platform \<Rightarrow> neat_fetch \<Rightarrow> int \<Rightarrow> world
     \<Rightarrow> ((js_error + response FetchResult) \<times> world) option" where
  "executeWithRetry P this attempt w =
     (case attempt_once P this attempt w of
        None \<Rightarrow> None
      | Some (Return res, w') \<Rightarrow> Some (Inr res, w')
      | Some (Throw e, w') \<Rightarrow> Some (Inl e, w')
      | Some (Recurse, w') \<Rightarrow> executeWithRetry P this (attempt + 1) w')"
  by pat_completeness auto
termination
  by (relation "measure (\<lambda>(P, this, attempt, w). nat (retryCount this - attempt))")
     (auto dest: attempt_once_Recurse_bound)

declare executeWithRetry.simps [simp del]

section \<open>Memoised execution and the terminal operations\<close>

text \<open>
  \<open>execute\<close> stores the promise of the first run in \<open>executionPromise\<close> and returns the
  stored one afterwards. The model returns the promise, the instance as it then is, and
  the world.
\<close>

definition execute ::
  "platform \<Rightarrow> neat_fetch \<Rightarrow> world \<Rightarrow> response FetchResult promise \<times> neat_fetch \<times> world" where
  "execute P this w =
     (case executionPromise this of
        Some p \<Rightarrow> (p, this, w)
      | None \<Rightarrow>
          (case executeWithRetry P this 0 w of
             None \<Rightarrow> (Pending, this\<lparr>executionPromise := Some Pending\<rparr>, w)
           | Some (Inr res, w') \<Rightarrow>
               (Fulfilled res, this\<lparr>executionPromise := Some (Fulfilled res)\<rparr>, w')
           | Some (Inl e, w') \<Rightarrow>
               (RejectedWith e, this\<lparr>executionPromise := Some (RejectedWith e)\<rparr>, w')))"

text \<open>
  \<open>promise.then(onFulfilled, onRejected)\<close> with callbacks that return plain values. A
  missing \<open>onRejected\<close> lets the rejection through; \<open>catch\<close> passes \<open>null\<close> for
  \<open>onFulfilled\<close>, so a fulfilled value goes through unchanged.
\<close>

definition promise_then ::
  "'a promise \<Rightarrow> ('a \<Rightarrow> 'b) \<Rightarrow> (js_error \<Rightarrow> 'b) option \<Rightarrow> 'b promise" where
  "promise_then p onFulfilled onRejected =
     (case p of
        Fulfilled v \<Rightarrow> Fulfilled (onFulfilled v)
      | RejectedWith e \<Rightarrow>
          (case onRejected of None \<Rightarrow> RejectedWith e | Some h \<Rightarrow> Fulfilled (h e))
      | Pending \<Rightarrow> Pending)"

definition then_op ::
  "platform \<Rightarrow> neat_fetch \<Rightarrow> (response FetchResult \<Rightarrow> 'b) \<Rightarrow> (js_error \<Rightarrow> 'b) option \<Rightarrow> world
     \<Rightarrow> 'b promise \<times> neat_fetch \<times> world" where
  "then_op P this onFulfilled onRejected w =
     (case execute P this w of (p, this', w') \<Rightarrow> (promise_then p onFulfilled onRejected, this', w'))"

definition catch_op ::
  "platform \<Rightarrow> neat_fetch \<Rightarrow> (js_error \<Rightarrow> response FetchResult) option \<Rightarrow> world
     \<Rightarrow> response FetchResult promise \<times> neat_fetch \<times> world" where
  "catch_op P this onRejected w =
     (case execute P this w of (p, this', w') \<Rightarrow> (promise_then p (\<lambda>v. v) onRejected, this', w'))"

definition finally_op ::
  "platform \<Rightarrow> neat_fetch \<Rightarrow> world \<Rightarrow> response FetchResult promise \<times> neat_fetch \<times> world" where
  "finally_op P this w = execute P this w"

text \<open>
  Reading a body: \<open>response.text()\<close> throws once the body has been used. After a read the
  response object held in the memoised tuple is the used one.
\<close>

definition body_text :: "response \<Rightarrow> (js_error + string) \<times> response" where
  "body_text r =
     (if bodyUsed r then (Inl (TypeError ''Body has already been read''), r)
      else (Inr (case response_body r of None \<Rightarrow> [] | Some b \<Rightarrow> b),
            r\<lparr>bodyUsed := (response_body r \<noteq> None)\<rparr>))"

definition body_json :: "platform \<Rightarrow> response \<Rightarrow> (js_error + jsval) \<times> response" where
  "body_json P r =
     (case body_text r of
        (Inl e, r') \<Rightarrow> (Inl e, r')
      | (Inr s, r') \<Rightarrow>
          (case JSON_parse P s of
             None \<Rightarrow> (Inl (SyntaxError ''Unexpected token in JSON''), r')
           | Some v \<Rightarrow> (Inr v, r')))"

definition body_blob :: "response \<Rightarrow> (js_error + jsval) \<times> response" where
  "body_blob r =
     (case body_text r of (Inl e, r') \<Rightarrow> (Inl e, r') | (Inr s, r') \<Rightarrow> (Inr (JNative Blob s), r'))"

definition body_arrayBuffer :: "response \<Rightarrow> (js_error + jsval) \<times> response" where
  "body_arrayBuffer r =
     (case body_text r of
        (Inl e, r') \<Rightarrow> (Inl e, r')
      | (Inr s, r') \<Rightarrow> (Inr (JNative ArrayBuffer s), r'))"

definition body_formData :: "platform \<Rightarrow> response \<Rightarrow> (js_error + jsval) \<times> response" where
  "body_formData P r =
     (case body_text r of
        (Inl e, r') \<Rightarrow> (Inl e, r')
      | (Inr s, r') \<Rightarrow>
          (case FormData_parse P s of
             None \<Rightarrow> (Inl (TypeError ''Could not parse content as FormData''), r')
           | Some f \<Rightarrow> (Inr (JNative FormData f), r')))"

text \<open>
  The shared opening of the decoding methods:
  \<open>const [response, error] = await this.execute(); if (error) return [null, error];\<close>
  and then the method's own work on \<open>response\<close>, which may be \<open>null\<close> when the error slot
  was falsy. That work returns a tuple (\<open>Inr\<close>) or throws (\<open>Inl\<close>), which rejects the
  promise of the \<open>async\<close> method; it may leave the response object read.
\<close>

definition with_response ::
  "platform \<Rightarrow> neat_fetch \<Rightarrow> world
     \<Rightarrow> (response option \<Rightarrow> (js_error + 'a FetchResult) \<times> response option)
     \<Rightarrow> 'a FetchResult promise \<times> neat_fetch \<times> world" where
  "with_response P this w k =
     (case execute P this w of
        (Pending, this', w') \<Rightarrow> (Pending, this', w')
      | (RejectedWith e, this', w') \<Rightarrow> (RejectedWith e, this', w')
      | (Fulfilled (resp, error), this', w') \<Rightarrow>
          if truthy error then (Fulfilled (None, error), this', w')
          else
            (case k resp of
               (Inl e, resp') \<Rightarrow>
                 (RejectedWith e,
                  this'\<lparr>executionPromise := Some (Fulfilled (resp', error))\<rparr>, w')
             | (Inr res, resp') \<Rightarrow>
                 (Fulfilled res,
                  this'\<lparr>executionPromise := Some (Fulfilled (resp', error))\<rparr>, w')))"

text \<open>
  The \<open>try { data = await response.m(); return [data, null] } catch\<close> of each method: on
  a \<open>null\<close> response the call itself throws inside the \<open>try\<close>.
\<close>

definition try_read ::
  "(response \<Rightarrow> (js_error + 'a) \<times> response) \<Rightarrow> ('a \<Rightarrow> 'b option) \<Rightarrow> response option
     \<Rightarrow> (js_error + 'b FetchResult) \<times> response option" where
  "try_read m slot resp =
     (case resp of
        None \<Rightarrow> (Inr (None, Some (Err (TypeError ''Cannot read properties of null''))), None)
      | Some r \<Rightarrow>
          (case m r of
             (Inl parseError, r') \<Rightarrow> (Inr (None, Some (Err parseError)), Some r')
           | (Inr data, r') \<Rightarrow> (Inr (slot data, None), Some r')))"

text \<open>\<open>json\<close> reads \<open>response.status\<close> before its \<open>try\<close>.\<close>

definition json ::
  "platform \<Rightarrow> neat_fetch \<Rightarrow> world \<Rightarrow> jsval FetchResult promise \<times> neat_fetch \<times> world" where
  "json P this w =
     with_response P this w
       (\<lambda>resp. case resp of
           None \<Rightarrow> (Inl (TypeError ''Cannot read properties of null (reading status)''), None)
         | Some r \<Rightarrow>
             if status r = 204 \<or> headers_get r ''Content-Length'' = Some ''0''
             then (Inr (None, None), Some r)
             else try_read (body_json P) nullable (Some r))"

definition text_op ::
  "platform \<Rightarrow> neat_fetch \<Rightarrow> world \<Rightarrow> string FetchResult promise \<times> neat_fetch \<times> world" where
  "text_op P this w = with_response P this w (try_read body_text Some)"

definition blob ::
  "platform \<Rightarrow> neat_fetch \<Rightarrow> world \<Rightarrow> jsval FetchResult promise \<times> neat_fetch \<times> world" where
  "blob P this w = with_response P this w (try_read body_blob Some)"

definition arrayBuffer ::
  "platform \<Rightarrow> neat_fetch \<Rightarrow> world \<Rightarrow> jsval FetchResult promise \<times> neat_fetch \<times> world" where
  "arrayBuffer P this w = with_response P this w (try_read body_arrayBuffer Some)"

definition formData ::
  "platform \<Rightarrow> neat_fetch \<Rightarrow> world \<Rightarrow> jsval FetchResult promise \<times> neat_fetch \<times> world" where
  "formData P this w = with_response P this w (try_read (body_formData P) Some)"

text \<open>
  \<open>stream\<close> returns \<open>[response.body, null]\<close>, with no \<open>try\<close>; the body of a response may
  be \<open>null\<close>.
\<close>

definition stream ::
  "platform \<Rightarrow> neat_fetch \<Rightarrow> world \<Rightarrow> string FetchResult promise \<times> neat_fetch \<times> world" where
  "stream P this w =
     with_response P this w
       (\<lambda>resp. case resp of
           None \<Rightarrow> (Inl (TypeError ''Cannot read properties of null (reading body)''), None)
         | Some r \<Rightarrow> (Inr (response_body r, None), Some r))"

section \<open>Body serialisation and the HTTP-verb operations\<close>

text \<open>A header value read from a record is truthy when it is there and not empty.\<close>

definition truthy_header :: "(string \<times> string) list \<Rightarrow> string \<Rightarrow> bool" where
  "truthy_header hs k = (case map_of hs k of None \<Rightarrow> False | Some v \<Rightarrow> v \<noteq> [])"

text \<open>
  \<open>serializeBody\<close> returns an object with optional \<open>body\<close> and \<open>headers\<close>; a missing
  property destructures to \<open>undefined\<close>, here \<open>None\<close>.
\<close>

definition serializeBody ::
  "platform \<Rightarrow> neat_fetch \<Rightarrow> jsval \<Rightarrow> jsval option \<times> (string \<times> string) list option" where
  "serializeBody P this data =
     (if data = JNull \<or> data = JUndefined then (None, None)
      else
        (case data of
           JNative k c \<Rightarrow> (Some data, None)
         | JStr s \<Rightarrow> (Some data, None)
         | _ \<Rightarrow>
             (Some (JStr (JSON_stringify P data)),
              Some (if \<not> truthy_header (headersObj this) ''Content-Type''
                       \<and> \<not> truthy_header (headersObj this) ''content-type''
                    then [(''content-type'', ''application/json'')]
                    else []))))"

text \<open>
  The options object the body-bearing verbs pass to the constructor:
  \<open>{ ...this.fetchOptions, method: m, body, headers }\<close>. The properties \<open>body\<close> and
  \<open>headers\<close> are always written, also when their value is \<open>undefined\<close>.
\<close>

definition body_verb_options :: "platform \<Rightarrow> neat_fetch \<Rightarrow> string \<Rightarrow> jsval \<Rightarrow> fetch_options" where
  "body_verb_options P this m data =
     (case serializeBody P this data of
        (b, hs) \<Rightarrow>
          (fetchOptions this)\<lparr>http_method := Some m, body := b,
                               headers := map_option HeadersRecord hs\<rparr>)"










section \<open>Chain mutators\<close>

definition clone :: "platform \<Rightarrow> neat_fetch \<Rightarrow> neat_fetch option" where
  "clone P this = NeatFetch P (url this) (fetchOptions this)"

definition timeout_mut :: "platform \<Rightarrow> neat_fetch \<Rightarrow> int \<Rightarrow> neat_fetch option" where
  "timeout_mut P this ms = NeatFetch P (url this) ((fetchOptions this)\<lparr>timeout := Some ms\<rparr>)"

text \<open>\<open>retry(count, delay = 1000)\<close>: an omitted \<open>delay\<close> takes the default.\<close>

definition retry_mut :: "platform \<Rightarrow> neat_fetch \<Rightarrow> int \<Rightarrow> int option \<Rightarrow> neat_fetch option" where
  "retry_mut P this count delay =
     NeatFetch P (url this)
       ((fetchOptions this)\<lparr>retry := Some count,
                            retryDelay := Some (case delay of None \<Rightarrow> 1000 | Some d \<Rightarrow> d)\<rparr>)"

definition baseURL_mut :: "platform \<Rightarrow> neat_fetch \<Rightarrow> string \<Rightarrow> neat_fetch option" where
  "baseURL_mut P this u = NeatFetch P (url this) ((fetchOptions this)\<lparr>baseURL := Some u\<rparr>)"

text \<open>Object spread \<open>{ ...a, ...b }\<close> on records given by their entries.\<close>

definition spread :: "(string \<times> 'a) list \<Rightarrow> (string \<times> 'a) list \<Rightarrow> (string \<times> 'a) list" where
  "spread a b = fold (\<lambda>(k, v) m. AList.update k v m) b a"

definition headers_mut ::
  "platform \<Rightarrow> neat_fetch \<Rightarrow> (string \<times> string) list \<Rightarrow> neat_fetch option" where
  "headers_mut P this requestHeaders =
     NeatFetch P (url this)
       ((fetchOptions this)\<lparr>headers :=
          Some (HeadersRecord (spread (headersObj this) requestHeaders))\<rparr>)"

definition query :: "platform \<Rightarrow> neat_fetch \<Rightarrow> (string \<times> jsval) list \<Rightarrow> neat_fetch option" where
  "query P this queryParams =
     NeatFetch P (url this)
       ((fetchOptions this)\<lparr>params :=
          Some (spread (case params (fetchOptions this) of None \<Rightarrow> [] | Some p \<Rightarrow> p)
                  queryParams)\<rparr>)"

section \<open>A transport that honours the signal\<close>

text \<open>
  The Fetch standard's behaviour towards \<open>init.signal\<close>, for a server given by what it
  would do with the \<open>n\<close>-th call if left alone: respond or fail after some time, or
  remain silent. When the attached signal is aborted before that, the call throws the
  signal's reason at that moment; an aborted signal that is not attached has no effect.
\<close>

datatype behaviour = Responds int response | Fails int js_error | Silent

definition abort_after :: "world \<Rightarrow> request_init \<Rightarrow> (int \<times> caught option) option" where
  "abort_after w ri =
     (case signal ri of
        None \<Rightarrow> None
      | Some s \<Rightarrow>
          (case abort_time s of
             None \<Rightarrow> None
           | Some t \<Rightarrow> Some (max 0 (t - now w), reason s)))"

definition conforming_fetch :: "(nat \<Rightarrow> string \<Rightarrow> request_init \<Rightarrow> behaviour) \<Rightarrow> fetchfn" where
  "conforming_fetch server w u ri =
     (case server (calls w) u ri of
        Responds d r \<Rightarrow>
          (case abort_after w ri of
             None \<Rightarrow> Some (Resolved r, d)
           | Some (a, e) \<Rightarrow> if a < d then Some (Threw e, a) else Some (Resolved r, d))
      | Fails d err \<Rightarrow>
          (case abort_after w ri of
             None \<Rightarrow> Some (Threw (Some (Err err)), d)
           | Some (a, e) \<Rightarrow>
               if a < d then Some (Threw e, a) else Some (Threw (Some (Err err)), d))
      | Silent \<Rightarrow>
          (case abort_after w ri of
             None \<Rightarrow> None
           | Some (a, e) \<Rightarrow> Some (Threw e, a)))"

section \<open>An example platform\<close>

text \<open>
  To run the model on concrete requests the host functions need values. This platform
  has a small URL parser for \<open>http\<close> and \<open>https\<close> URLs (no normalisation, no other
  schemes), a JSON printer without string escapes, a JSON reader for literals, unescaped
  strings and the empty object and array, \<open>Number\<close> for unsigned decimals, Node's timer,
  and a network that is down.
  Theorems below hold for every platform; this one instantiates them.
\<close>

definition is_http_url :: "string \<Rightarrow> bool" where
  "is_http_url s =
     ((take 7 s = ''http://'' \<and> length s > 7) \<or> (take 8 s = ''https://'' \<and> length s > 8))"

definition split_at :: "char \<Rightarrow> string \<Rightarrow> string \<times> string option" where
  "split_at c s =
     (let b = dropWhile (\<lambda>x. x \<noteq> c) s
      in (takeWhile (\<lambda>x. x \<noteq> c) s, if b = [] then None else Some (tl b)))"

fun split_on :: "char \<Rightarrow> string \<Rightarrow> string list" where
  "split_on c [] = [[]]"
| "split_on c (x # xs) =
     (if x = c then [] # split_on c xs
      else (case split_on c xs of [] \<Rightarrow> [[x]] | y # ys \<Rightarrow> (x # y) # ys))"

definition parse_pairs :: "string \<Rightarrow> (string \<times> string) list" where
  "parse_pairs q =
     map (\<lambda>seg. case split_at CHR ''='' seg of (k, v) \<Rightarrow> (k, case v of None \<Rightarrow> [] | Some x \<Rightarrow> x))
       (filter (\<lambda>seg. seg \<noteq> []) (split_on CHR ''&'' q))"

definition parse_http :: "string \<Rightarrow> URL" where
  "parse_http s =
     (case split_at CHR ''#'' s of
        (s1, frag) \<Rightarrow>
          (case split_at CHR ''?'' s1 of
             (s2, q) \<Rightarrow>
               \<lparr>url_base = (if CHR ''/'' \<in> set (drop 8 s2) then s2 else s2 @ ''/''),
                url_query = q,
                url_pairs = (case q of None \<Rightarrow> [] | Some x \<Rightarrow> parse_pairs x),
                url_fragment = frag\<rparr>))"

definition simple_URL_new :: "string \<Rightarrow> string option \<Rightarrow> URL option" where
  "simple_URL_new s base =
     (if is_http_url s then Some (parse_http s)
      else
        (case base of
           None \<Rightarrow> None
         | Some b \<Rightarrow>
             if is_http_url b
             then Some (parse_http (strip_trailing_slash b @ ''/'' @ strip_leading_slash s))
             else None))"

fun simple_stringify :: "jsval \<Rightarrow> string" where
  "simple_stringify JUndefined = ''null''"
| "simple_stringify JNull = ''null''"
| "simple_stringify (JBool b) = (if b then ''true'' else ''false'')"
| "simple_stringify (JNum n) = String_js (JNum n)"
| "simple_stringify (JStr s) = [CHR 0x22] @ s @ [CHR 0x22]"
| "simple_stringify (JArr vs) = ''['' @ join '','' (map simple_stringify vs) @ '']''"
| "simple_stringify (JObj kvs) =
     ''{'' @ join '','' (map (\<lambda>kv. [CHR 0x22] @ fst kv @ [CHR 0x22] @ '':''
                               @ simple_stringify (snd kv)) kvs) @ ''}''"
| "simple_stringify (JNative k c) = ''{}''"

definition simple_parse :: "string \<Rightarrow> jsval option" where
  "simple_parse s =
     (if s = ''null'' then Some JNull
      else if s = ''true'' then Some (JBool True)
      else if s = ''false'' then Some (JBool False)
      else if s = ''{}'' then Some (JObj [])
      else if s = ''[]'' then Some (JArr [])
      else if length s \<ge> 2 \<and> hd s = CHR 0x22 \<and> last s = CHR 0x22
              \<and> CHR 0x22 \<notin> set (butlast (tl s))
      then Some (JStr (butlast (tl s)))
      else None)"

definition digit_value :: "char \<Rightarrow> nat option" where
  "digit_value c =
     (let n = (of_char c :: nat) in if 48 \<le> n \<and> n \<le> 57 then Some (n - 48) else None)"

definition digits_value :: "string \<Rightarrow> nat option" where
  "digits_value s =
     fold (\<lambda>c acc. case (acc, digit_value c) of
                      (Some a, Some d) \<Rightarrow> Some (10 * a + d)
                    | _ \<Rightarrow> None) s (Some 0)"

definition simple_Number :: "string \<Rightarrow> rat option" where
  "simple_Number s =
     (case split_at CHR ''.'' s of
        (a, None) \<Rightarrow> map_option of_nat (digits_value a)
      | (a, Some b) \<Rightarrow>
          (case (digits_value a, digits_value b) of
             (Some x, Some y) \<Rightarrow>
               if a = [] \<and> b = [] then None
               else Some (of_nat x + of_nat y / 10 ^ length b)
           | _ \<Rightarrow> None))"

definition node_timer :: "int \<Rightarrow> int" where
  "node_timer n = (if 1 \<le> n \<and> n \<le> 2147483647 then n else 1)"

definition network_down :: fetchfn where
  "network_down = conforming_fetch (\<lambda>n u ri. Fails 0 (TypeError ''fetch failed''))"

definition example_platform :: platform where
  "example_platform =
     \<lparr>URL_new = simple_URL_new,
      window_origin = None,
      JSON_stringify = simple_stringify,
      JSON_parse = simple_parse,
      Number_js = simple_Number,
      Date_parse = (\<lambda>s. None),
      FormData_parse = (\<lambda>s. Some s),
      global_fetch = network_down\<rparr>"

text \<open>The options object \<open>{}\<close>, and a world at time 0 in which nothing has happened.\<close>

definition no_options :: fetch_options where
  "no_options =
     \<lparr>http_method = None, body = None, headers = None, signal = None, fetchFn = None,
      params = None, timeout = None, retry = None, retryDelay = None, baseURL = None\<rparr>"

definition world0 :: world where
  "world0 = \<lparr>now = 0, trace = [], timer_wait = node_timer\<rparr>"

section \<open>Vocabulary for stating the properties\<close>

text \<open>
  A transport that always answers with a fresh response (body not read) of a given
  status; fake transports in the style of a test double; a server that never answers; and
  the list of the waits that stand immediately before a transport call in a trace.
\<close>

definition always_status :: "fetchfn \<Rightarrow> int \<Rightarrow> bool" where
  "always_status f s =
     (\<forall>w u ri. \<exists>r d. f w u ri = Some (Resolved r, d) \<and> status r = s \<and> \<not> bodyUsed r)"


definition plain_response :: "int \<Rightarrow> string \<Rightarrow> response" where
  "plain_response s t =
     \<lparr>status = s, statusText = t, response_headers = [], response_body = None,
      bodyUsed = False\<rparr>"

definition read_response :: "int \<Rightarrow> string \<Rightarrow> response" where
  "read_response s t =
     \<lparr>status = s, statusText = t, response_headers = [], response_body = Some t,
      bodyUsed = True\<rparr>"

definition rate_limited :: response where
  "rate_limited =
     \<lparr>status = 429, statusText = ''Too Many Requests'',
      response_headers = [(''retry-after'', ''5'')], response_body = None, bodyUsed = False\<rparr>"

definition always_responds :: "response \<Rightarrow> fetchfn" where
  "always_responds r w u ri = Some (Resolved r, 10)"

definition always_throws :: "caught option \<Rightarrow> fetchfn" where
  "always_throws x w u ri = Some (Threw x, 10)"

definition silent_server :: "nat \<Rightarrow> string \<Rightarrow> request_init \<Rightarrow> behaviour" where
  "silent_server n u ri = Silent"

fun backoffs :: "event list \<Rightarrow> int list" where
  "backoffs (Sleep ms # Fetch u ri # es) = ms # backoffs (Fetch u ri # es)"
| "backoffs (e # es) = backoffs es"
| "backoffs [] = []"

text \<open>
  A result tuple has exactly one slot populated, or at least never both. The memoised
  promise of an instance is in order when its tuple, if it has one, never has both slots
  populated: this holds after the constructor and after every operation. It is exact
  when the tuple has exactly one slot populated and the promise is not rejected.
\<close>

definition exactly_one :: "'a FetchResult \<Rightarrow> bool" where
  "exactly_one res =
     (case res of (Some v, None) \<Rightarrow> True | (None, Some e) \<Rightarrow> True | _ \<Rightarrow> False)"

definition never_both :: "'a FetchResult \<Rightarrow> bool" where
  "never_both res = (case res of (Some v, Some e) \<Rightarrow> False | _ \<Rightarrow> True)"



text \<open>
  An instance is polite when none of the transport calls it makes fails with \<open>null\<close> or
  \<open>undefined\<close> as the failure value. \<open>delete\<close>, \<open>head\<close> and \<open>options\<close> run a new instance
  built from the URL and the options of the one they are called on, with the verb set;
  \<open>polite_verb\<close> is politeness of that instance.
\<close>

definition polite :: "neat_fetch \<Rightarrow> bool" where
  "polite this =
     (\<forall>w d. this_fetchFn this w (finalUrl this) (requestInitWithSignal this w)
              \<noteq> Some (Threw None, d))"


text \<open>Responses for the examples, and signals of the caller's.\<close>

definition text_response :: "string \<Rightarrow> response" where
  "text_response b =
     \<lparr>status = 200, statusText = ''OK'', response_headers = [], response_body = Some b,
      bodyUsed = False\<rparr>"

definition empty_response :: response where
  "empty_response =
     \<lparr>status = 200, statusText = ''OK'', response_headers = [(''content-length'', ''0'')],
      response_body = Some [], bodyUsed = False\<rparr>"

definition never_aborted :: abort_signal where
  "never_aborted = \<lparr>abort_time = None, reason = Some (Err AbortError)\<rparr>"

definition aborted_with :: "caught option \<Rightarrow> abort_signal" where
  "aborted_with x = \<lparr>abort_time = Some 0, reason = x\<rparr>"

definition TimeoutError :: js_error where
  "TimeoutError = (Error ''The operation timed out'')\<lparr>name := ''TimeoutError''\<rparr>"

definition api_test_users :: URL where
  "api_test_users =
     \<lparr>url_base = ''https://api.test/users'', url_query = None, url_pairs = [],
      url_fragment = None\<rparr>"

text \<open>
  The ways of consuming an instance (awaiting it through \<open>then\<close>, \<open>catch\<close> or \<open>finally\<close>,
  or calling a decoding method), a sequence of consumptions on one instance, and the world
  as one run of the retry loop leaves it (unchanged when the run never settles).
\<close>

datatype consumption =
  ThenC | CatchC | FinallyC | JsonC | TextC | BlobC | ArrayBufferC | FormDataC | StreamC

definition consume :: "platform \<Rightarrow> consumption \<Rightarrow> neat_fetch \<Rightarrow> world \<Rightarrow> neat_fetch \<times> world" where
  "consume P c this w =
     (case c of
        ThenC \<Rightarrow> snd (then_op P this (\<lambda>v. v) (Some (\<lambda>e. (None, Some (Err e)))) w)
      | CatchC \<Rightarrow> snd (catch_op P this (Some (\<lambda>e. (None, Some (Err e)))) w)
      | FinallyC \<Rightarrow> snd (finally_op P this w)
      | JsonC \<Rightarrow> snd (json P this w)
      | TextC \<Rightarrow> snd (text_op P this w)
      | BlobC \<Rightarrow> snd (blob P this w)
      | ArrayBufferC \<Rightarrow> snd (arrayBuffer P this w)
      | FormDataC \<Rightarrow> snd (formData P this w)
      | StreamC \<Rightarrow> snd (stream P this w))"

fun consume_all ::
  "platform \<Rightarrow> consumption list \<Rightarrow> neat_fetch \<Rightarrow> world \<Rightarrow> neat_fetch \<times> world" where
  "consume_all P [] this w = (this, w)"
| "consume_all P (c # cs) this w =
     (case consume P c this w of (this', w') \<Rightarrow> consume_all P cs this' w')"

definition after_one_run :: "platform \<Rightarrow> neat_fetch \<Rightarrow> world \<Rightarrow> world" where
  "after_one_run P this w =
     (case executeWithRetry P this 0 w of None \<Rightarrow> w | Some (res, w') \<Rightarrow> w')"

text \<open>
  The query composition in the words of the specification: a \<open>null\<close> or absent value
  gives no pair, a sequence gives one pair per element in order, a scalar gives one pair;
  the pairs are appended to those the URL already has and the query is the serialisation
  of them all.
\<close>

definition spec_query_pairs :: "(string \<times> jsval) list \<Rightarrow> (string \<times> string) list" where
  "spec_query_pairs ps =
     concat (map (\<lambda>(k, v).
        if v = JNull \<or> v = JUndefined then []
        else (case v of
                JArr vs \<Rightarrow> map (\<lambda>e. (k, String_js e)) vs
              | _ \<Rightarrow> [(k, String_js v)])) ps)"

definition spec_appended :: "URL \<Rightarrow> (string \<times> string) list \<Rightarrow> URL" where
  "spec_appended u qs =
     (if qs = [] then u
      else u\<lparr>url_pairs := url_pairs u @ qs,
             url_query := Some (serialize_pairs (url_pairs u @ qs))\<rparr>)"

section \<open>Facts about the constructor and a single attempt\<close>

lemma attempt_once_Recurse_sleep:
  "attempt_once P this a w = Some (Recurse, w') \<Longrightarrow>
     \<exists>w2. w' = sleep (retryDelayMs this * (a + 1)) w2"
  by (auto simp: attempt_once_def catch_block_def Let_def
      split: option.splits prod.splits settled.splits sum.splits if_splits)

lemma trace_sleep: "trace (sleep ms w) = trace w @ [Sleep ms]"
  by (simp add: sleep_def)

lemma now_sleep: "now (sleep ms w) = now w + max 0 (timer_wait w ms)"
  by (simp add: sleep_def)

lemma timer_wait_sleep: "timer_wait (sleep ms w) = timer_wait w"
  by (simp add: sleep_def)

lemma NeatFetch_fields:
  assumes "NeatFetch P u opts = Some this"
  shows "url this = u" and "fetchOptions this = opts"
    and "this_params this = (case params opts of None \<Rightarrow> [] | Some p \<Rightarrow> p)"
    and "buildUrl P u opts (this_params this) = Some (finalUrl this)"
    and "requestInit this = \<lparr>http_method = http_method opts, body = body opts,
                               headers = headers opts, signal = signal opts\<rparr>"
    and "timeoutMs this = timeout opts"
    and "retryCount this = or_num (retry opts) 0"
    and "retryDelayMs this = or_num (retryDelay opts) 1000"
    and "headersObj this = normalizeHeaders (headers opts)"
    and "executionPromise this = None"
    and "this_fetchFn this = (case fetchFn opts of Some f \<Rightarrow> f | None \<Rightarrow> global_fetch P)"
  using assms by (auto simp: NeatFetch_def transport_def Let_def split: option.splits)

lemma NeatFetch_absolute:
  assumes "URL_new P u None = Some x"
  shows "\<exists>this. NeatFetch P u opts = Some this"
  using assms by (auto simp: NeatFetch_def buildUrl_def Let_def split: option.splits)

lemma example_absolute:
  "URL_new example_platform ''https://api.test/users'' None = Some (parse_http ''https://api.test/users'')"
  by (simp add: example_platform_def simple_URL_new_def is_http_url_def)

lemma attempt_once_Resolved_ok:
  assumes "call_fetch (this_fetchFn this) (finalUrl this) (requestInitWithSignal this w) w
             = Some (Resolved r, w1)" and "ok r"
  shows "attempt_once P this a w = Some (Return (Some r, None), w1)"
  using assms by (simp add: attempt_once_def)

lemma attempt_once_Resolved:
  assumes "call_fetch (this_fetchFn this) (finalUrl this) (requestInitWithSignal this w) w
             = Some (Resolved r, w1)" and "\<not> bodyUsed r"
  shows "attempt_once P this a w =
           (if ok r then Some (Return (Some r, None), w1)
            else if a < retryCount this \<and> (500 \<le> status r \<or> status r = 429)
            then Some (Recurse, sleep (retryDelayMs this * (a + 1)) (retry_after_wait P r w1))
            else Some (Return (None, Some (Err (HttpError this r r))), retry_after_wait P r w1))"
  using assms by (simp add: attempt_once_def response_clone_def Let_def)

lemma attempt_once_Resolved_used:
  assumes "call_fetch (this_fetchFn this) (finalUrl this) (requestInitWithSignal this w) w
             = Some (Resolved r, w1)" and "\<not> ok r" and "bodyUsed r"
  shows "attempt_once P this a w
           = catch_block this a (Some (Err (TypeError ''Response body is already used''))) w1"
  using assms by (simp add: attempt_once_def response_clone_def)

lemma attempt_once_Threw:
  assumes "call_fetch (this_fetchFn this) (finalUrl this) (requestInitWithSignal this w) w
             = Some (Threw x, w1)"
  shows "attempt_once P this a w = catch_block this a x w1"
  using assms by (simp add: attempt_once_def)

lemma attempt_once_None:
  assumes "call_fetch (this_fetchFn this) (finalUrl this) (requestInitWithSignal this w) w = None"
  shows "attempt_once P this a w = None"
  using assms by (simp add: attempt_once_def)

lemma catch_block_Some:
  "catch_block this a (Some x) w =
     (if a < retryCount this \<and> name_of x \<noteq> Some ''AbortError''
      then Some (Recurse, sleep (retryDelayMs this * (a + 1)) w)
      else Some (Return (None, Some x), w))"
  by (simp add: catch_block_def)

lemma catch_block_None:
  "catch_block this a None w =
     (if a < retryCount this
      then Some (Throw (TypeError ''Cannot read properties of null (reading name)''), w)
      else Some (Return (None, None), w))"
  by (simp add: catch_block_def)

lemma name_AbortError: "name AbortError = ''AbortError''"
  by (simp add: AbortError_def)

lemma name_TypeError: "name (TypeError m) = ''TypeError''"
  by (simp add: TypeError_def)

lemma err_status_TypeError: "err_status (TypeError m) = None"
  by (simp add: TypeError_def Error_def)

lemma calls_sleep: "calls (sleep ms w) = calls w"
  by (simp add: calls_def sleep_def)

lemma calls_retry_after_wait: "calls (retry_after_wait P r w) = calls w"
  by (simp add: retry_after_wait_def calls_sleep split: option.splits)

lemma call_fetch_calls: "call_fetch f u ri w = Some (s, w1) \<Longrightarrow> calls w1 = calls w + 1"
  by (auto simp: call_fetch_def calls_def split: option.splits)

lemma always_status_call:
  assumes "always_status f s"
  obtains r w1 where "call_fetch f u ri w = Some (Resolved r, w1)" and "status r = s"
    and "\<not> bodyUsed r"
proof -
  from assms obtain r d where "f w u ri = Some (Resolved r, d)" "status r = s" "\<not> bodyUsed r"
    unfolding always_status_def by blast
  then show ?thesis using that by (simp add: call_fetch_def)
qed

lemma err_status_HttpError: "err_status (HttpError this r c) = Some (status r)"
  by (simp add: HttpError_def)

lemma run_not_retried:
  assumes f: "always_status (this_fetchFn this) s"
    and s: "\<not> (200 \<le> s \<and> s \<le> 299)" "\<not> (500 \<le> s \<or> s = 429)"
  shows "\<exists>e w'. executeWithRetry P this a w = Some (Inr (None, Some (Err e)), w')
            \<and> err_status e = Some s \<and> calls w' = calls w + 1"
proof -
  from f obtain r w1 where
    c: "call_fetch (this_fetchFn this) (finalUrl this) (requestInitWithSignal this w) w
          = Some (Resolved r, w1)" and r: "status r = s" and u: "\<not> bodyUsed r"
    by (rule always_status_call)
  from s r have "attempt_once P this a w
      = Some (Return (None, Some (Err (HttpError this r r))), retry_after_wait P r w1)"
    by (simp add: attempt_once_Resolved [OF c u] ok_def)
  then have "executeWithRetry P this a w
      = Some (Inr (None, Some (Err (HttpError this r r))), retry_after_wait P r w1)"
    by (simp add: executeWithRetry.simps)
  with r call_fetch_calls [OF c] show ?thesis
    by (simp add: err_status_HttpError calls_retry_after_wait)
qed

lemma run_always_retried:
  assumes f: "always_status (this_fetchFn this) s" and s: "500 \<le> s \<or> s = 429"
  shows "a \<le> retryCount this \<Longrightarrow>
         \<exists>e w'. executeWithRetry P this a w = Some (Inr (None, Some (Err e)), w')
            \<and> err_status e = Some s \<and> calls w' = calls w + nat (retryCount this - a) + 1"
proof (induction "nat (retryCount this - a)" arbitrary: a w)
  case 0
  from f obtain r w1 where
    c: "call_fetch (this_fetchFn this) (finalUrl this) (requestInitWithSignal this w) w
          = Some (Resolved r, w1)" and r: "status r = s" and u: "\<not> bodyUsed r"
    by (rule always_status_call)
  from 0 have "\<not> a < retryCount this" by simp
  with s r have "attempt_once P this a w
      = Some (Return (None, Some (Err (HttpError this r r))), retry_after_wait P r w1)"
    by (auto simp: attempt_once_Resolved [OF c u] ok_def)
  then have "executeWithRetry P this a w
      = Some (Inr (None, Some (Err (HttpError this r r))), retry_after_wait P r w1)"
    by (simp add: executeWithRetry.simps)
  with r call_fetch_calls [OF c] 0 show ?case
    by (simp add: err_status_HttpError calls_retry_after_wait)
next
  case (Suc n)
  from f obtain r w1 where
    c: "call_fetch (this_fetchFn this) (finalUrl this) (requestInitWithSignal this w) w
          = Some (Resolved r, w1)" and r: "status r = s" and u: "\<not> bodyUsed r"
    by (rule always_status_call)
  let ?w2 = "sleep (retryDelayMs this * (a + 1)) (retry_after_wait P r w1)"
  from Suc have lt: "a < retryCount this" by simp
  with s r have "attempt_once P this a w = Some (Recurse, ?w2)"
    by (auto simp: attempt_once_Resolved [OF c u] ok_def)
  then have e: "executeWithRetry P this a w = executeWithRetry P this (a + 1) ?w2"
    by (simp add: executeWithRetry.simps)
  from Suc lt have "n = nat (retryCount this - (a + 1))" "a + 1 \<le> retryCount this" by simp_all
  from Suc.hyps(1) [OF this, of ?w2] obtain e' w' where
    "executeWithRetry P this (a + 1) ?w2 = Some (Inr (None, Some (Err e')), w')"
    "err_status e' = Some s" "calls w' = calls ?w2 + nat (retryCount this - (a + 1)) + 1"
    by blast
  with e call_fetch_calls [OF c] Suc.hyps(2) lt show ?case
    by (simp add: calls_sleep calls_retry_after_wait)
qed

lemma calls_world0: "calls world0 = 0"
  by (simp add: calls_def world0_def)

lemma trace_world0: "trace world0 = []"
  by (simp add: world0_def)

lemma always_responds_call:
  assumes "this_fetchFn this = always_responds r"
  shows "call_fetch (this_fetchFn this) (finalUrl this) (requestInitWithSignal this w) w
           = Some (Resolved r, w\<lparr>now := now w + 10,
                trace := trace w @ [Fetch (finalUrl this) (requestInitWithSignal this w)]\<rparr>)"
  using assms by (simp add: call_fetch_def always_responds_def)

lemma timeout_abort_call:
  assumes "signal (requestInit this) = None" "timeoutMs this = Some ms" "ms \<noteq> 0"
    and "this_fetchFn this = conforming_fetch server"
    and "server (calls w) (finalUrl this) (requestInitWithSignal this w) = Silent"
  shows "\<exists>w1. call_fetch (this_fetchFn this) (finalUrl this) (requestInitWithSignal this w) w
           = Some (Threw (Some (Err AbortError)), w1)"
proof -
  have "abort_after w (requestInitWithSignal this w)
          = Some (max 0 (timer_wait w ms), Some (Err AbortError))"
    using assms(1-3)
    by (simp add: abort_after_def requestInitWithSignal_def controller_signal_def)
  with assms(4,5) show ?thesis
    by (simp add: call_fetch_def conforming_fetch_def)
qed

lemma caller_abort_call:
  assumes "signal (requestInit this) = Some s" "abort_time s = Some t"
    and "this_fetchFn this = conforming_fetch server"
    and "server (calls w) (finalUrl this) (requestInitWithSignal this w) = Silent"
  shows "\<exists>w1. call_fetch (this_fetchFn this) (finalUrl this) (requestInitWithSignal this w) w
           = Some (Threw (reason s), w1)"
proof -
  have "abort_after w (requestInitWithSignal this w) = Some (max 0 (t - now w), reason s)"
    using assms(1,2) by (simp add: abort_after_def requestInitWithSignal_def)
  with assms(3,4) show ?thesis
    by (simp add: call_fetch_def conforming_fetch_def)
qed

lemma backoffs_no_Fetch: "filter is_Fetch es = [] \<Longrightarrow> backoffs es = []"
  by (induction es rule: backoffs.induct) (auto split: if_splits)

lemma backoffs_sleeps_then_Fetch:
  "filter is_Fetch mid = [] \<Longrightarrow>
     backoffs (mid @ Sleep x # Fetch u ri # rest) = x # backoffs (Fetch u ri # rest)"
proof (induction mid)
  case Nil
  then show ?case by simp
next
  case (Cons e mid)
  then obtain y where e: "e = Sleep y" by (cases e) (auto split: if_splits)
  from Cons have IH: "backoffs (mid @ Sleep x # Fetch u ri # rest) = x # backoffs (Fetch u ri # rest)"
    by (auto split: if_splits)
  show ?case
  proof (cases mid)
    case Nil
    with e show ?thesis by simp
  next
    case (Cons e' mid')
    with Cons.prems e obtain z where "e' = Sleep z" by (cases e') (auto split: if_splits)
    with e Cons IH show ?thesis by simp
  qed
qed

lemma attempt_once_trace:
  assumes "attempt_once P this a w = Some (s, w')"
  shows "\<exists>u ri mid. trace w' = trace w @ Fetch u ri # mid \<and> filter is_Fetch mid = []
           \<and> (s = Recurse \<longrightarrow> (\<exists>pre. mid = pre @ [Sleep (retryDelayMs this * (a + 1))]))"
  using assms
  by (auto simp: attempt_once_def catch_block_def Let_def call_fetch_def retry_after_wait_def
        sleep_def
      split: option.splits prod.splits settled.splits sum.splits if_splits)

lemma run_backoffs:
  "executeWithRetry P this a w = Some (res, w') \<Longrightarrow>
     \<exists>u ri rest. trace w' = trace w @ Fetch u ri # rest
       \<and> backoffs (Fetch u ri # rest)
           = map (\<lambda>N. retryDelayMs this * N)
               [a + 1 .. a + int (length (filter is_Fetch rest))]"
proof (induction P this a w rule: executeWithRetry.induct)
  case (1 P this attempt w)
  from "1.prems" obtain s w1 where st: "attempt_once P this attempt w = Some (s, w1)"
    by (auto simp: executeWithRetry.simps split: option.splits)
  from attempt_once_trace [OF st] obtain u ri mid where
    tr: "trace w1 = trace w @ Fetch u ri # mid" and nf: "filter is_Fetch mid = []"
    and rc: "s = Recurse \<longrightarrow> (\<exists>pre. mid = pre @ [Sleep (retryDelayMs this * (attempt + 1))])"
    by blast
  have stop: ?case if "w' = w1"
    using that tr nf by (auto simp: backoffs_no_Fetch)
  show ?case
  proof (cases s)
    case (Return r)
    with st "1.prems" have "w' = w1" by (simp add: executeWithRetry.simps)
    then show ?thesis by (rule stop)
  next
    case (Throw e)
    with st "1.prems" have "w' = w1" by (simp add: executeWithRetry.simps)
    then show ?thesis by (rule stop)
  next
    case Recurse
    with st "1.prems" have run: "executeWithRetry P this (attempt + 1) w1 = Some (res, w')"
      by (simp add: executeWithRetry.simps)
    from "1.IH" [OF st refl Recurse run] obtain u' ri' rest' where
      tr': "trace w' = trace w1 @ Fetch u' ri' # rest'"
      and bo: "backoffs (Fetch u' ri' # rest')
           = map (\<lambda>N. retryDelayMs this * N)
               [attempt + 1 + 1 .. attempt + 1 + int (length (filter is_Fetch rest'))]"
      by blast
    from rc Recurse obtain pre where
      mid: "mid = pre @ [Sleep (retryDelayMs this * (attempt + 1))]" by blast
    with nf have npre: "filter is_Fetch pre = []" by simp
    let ?rest = "mid @ Fetch u' ri' # rest'"
    have t: "trace w' = trace w @ Fetch u ri # ?rest"
      using tr tr' by simp
    have r: "?rest = pre @ Sleep (retryDelayMs this * (attempt + 1)) # Fetch u' ri' # rest'"
      by (simp add: mid)
    have "backoffs (Fetch u ri # ?rest) = backoffs ?rest" by (cases ?rest) simp_all
    also have "\<dots> = retryDelayMs this * (attempt + 1) # backoffs (Fetch u' ri' # rest')"
      unfolding r by (rule backoffs_sleeps_then_Fetch [OF npre])
    finally have b: "backoffs (Fetch u ri # ?rest)
        = retryDelayMs this * (attempt + 1) # backoffs (Fetch u' ri' # rest')" .
    have len: "int (length (filter is_Fetch ?rest)) = 1 + int (length (filter is_Fetch rest'))"
      using nf by simp
    have "[attempt + 1 .. attempt + int (length (filter is_Fetch ?rest))]
        = (attempt + 1) # [attempt + 1 + 1 .. attempt + 1 + int (length (filter is_Fetch rest'))]"
      unfolding len by (subst upto_rec1) (simp_all add: algebra_simps)
    with b bo t show ?thesis by simp
  qed
qed

lemma exactly_one_simps [simp]:
  "exactly_one (Some v, None)" "exactly_one (None, Some e)"
  "\<not> exactly_one (None, None)" "\<not> exactly_one (Some v, Some e)"
  by (simp_all add: exactly_one_def)

lemma never_both_simps [simp]:
  "never_both (v, None)" "never_both (None, x)"
  "\<not> never_both (Some v, Some e)"
  by (simp_all add: never_both_def split: option.splits)

lemma exactly_one_never_both: "exactly_one res \<Longrightarrow> never_both res"
  by (cases res) (auto simp: exactly_one_def never_both_def split: option.splits)




















lemma NeatFetch_transport: "NeatFetch P u opts = Some this \<Longrightarrow> this_fetchFn this = transport P opts"
  by (simp add: NeatFetch_fields(11) transport_def)






lemma execute_fresh_Return:
  assumes "executionPromise this = None"
    and "attempt_once P this 0 w = Some (Return res, w')"
  shows "execute P this w = (Fulfilled res, this\<lparr>executionPromise := Some (Fulfilled res)\<rparr>, w')"
  using assms by (simp add: execute_def executeWithRetry.simps)

lemma toLowerCase_Content_Length: "toLowerCase ''Content-Length'' = ''content-length''"
  by code_simp

lemma execute_world:
  "execute P this w = (p, t, w') \<Longrightarrow>
     executionPromise t = Some p
     \<and> w' = (if executionPromise this = None then after_one_run P this w else w)
     \<and> (executionPromise this \<noteq> None \<longrightarrow> executionPromise this = Some p \<and> t = this)"
  by (auto simp: execute_def after_one_run_def split: option.splits sum.splits)

lemma with_response_world:
  assumes "with_response P this w k = (p, t, w')"
  shows "executionPromise t \<noteq> None
     \<and> w' = (if executionPromise this = None then after_one_run P this w else w)"
proof -
  obtain q t0 v where e: "execute P this w = (q, t0, v)" by (cases "execute P this w")
  from execute_world [OF e] assms e show ?thesis
    by (auto simp: with_response_def
        split: promise.splits option.splits prod.splits sum.splits if_splits)
qed

lemma consume_world:
  assumes "consume P c this w = (t, w')"
  shows "executionPromise t \<noteq> None
     \<and> w' = (if executionPromise this = None then after_one_run P this w else w)"
proof (cases c)
  case ThenC
  obtain q t0 v where e: "execute P this w = (q, t0, v)" by (cases "execute P this w")
  from execute_world [OF e] assms e ThenC show ?thesis
    by (auto simp: consume_def then_op_def)
next
  case CatchC
  obtain q t0 v where e: "execute P this w = (q, t0, v)" by (cases "execute P this w")
  from execute_world [OF e] assms e CatchC show ?thesis
    by (auto simp: consume_def catch_op_def)
next
  case FinallyC
  obtain q t0 v where e: "execute P this w = (q, t0, v)" by (cases "execute P this w")
  from execute_world [OF e] assms e FinallyC show ?thesis
    by (auto simp: consume_def finally_op_def)
next
  case JsonC
  obtain p where "json P this w = (p, t, w')"
    using assms JsonC by (cases "json P this w") (simp add: consume_def)
  then show ?thesis unfolding json_def by (rule with_response_world)
next
  case TextC
  obtain p where "text_op P this w = (p, t, w')"
    using assms TextC by (cases "text_op P this w") (simp add: consume_def)
  then show ?thesis unfolding text_op_def by (rule with_response_world)
next
  case BlobC
  obtain p where "blob P this w = (p, t, w')"
    using assms BlobC by (cases "blob P this w") (simp add: consume_def)
  then show ?thesis unfolding blob_def by (rule with_response_world)
next
  case ArrayBufferC
  obtain p where "arrayBuffer P this w = (p, t, w')"
    using assms ArrayBufferC by (cases "arrayBuffer P this w") (simp add: consume_def)
  then show ?thesis unfolding arrayBuffer_def by (rule with_response_world)
next
  case FormDataC
  obtain p where "formData P this w = (p, t, w')"
    using assms FormDataC by (cases "formData P this w") (simp add: consume_def)
  then show ?thesis unfolding formData_def by (rule with_response_world)
next
  case StreamC
  obtain p where "stream P this w = (p, t, w')"
    using assms StreamC by (cases "stream P this w") (simp add: consume_def)
  then show ?thesis unfolding stream_def by (rule with_response_world)
qed

lemma consume_all_memoised:
  "executionPromise this \<noteq> None \<Longrightarrow> consume_all P cs this w = (t, w') \<Longrightarrow>
     w' = w \<and> executionPromise t \<noteq> None"
proof (induction cs arbitrary: this w)
  case Nil
  then show ?case by simp
next
  case (Cons c cs)
  obtain t1 w1 where s: "consume P c this w = (t1, w1)" by (cases "consume P c this w")
  from consume_world [OF s] Cons.prems(1) have "executionPromise t1 \<noteq> None" "w1 = w" by simp_all
  with Cons.IH [of t1 w1] Cons.prems(2) s show ?case by simp
qed

lemma toLowerCase_content_type: "toLowerCase ''content-type'' = ''content-type''"
  by code_simp

lemma serializeBody_headers:
  "snd (serializeBody P this data) = None \<or> snd (serializeBody P this data) = Some []
   \<or> snd (serializeBody P this data) = Some [(''content-type'', ''application/json'')]"
  by (cases data) (auto simp: serializeBody_def)

lemma join_nonempty: "xs \<noteq> [] \<Longrightarrow> \<forall>x \<in> set xs. x \<noteq> [] \<Longrightarrow> join sep xs \<noteq> []"
  by (induction sep xs rule: join.induct) auto

lemma serialize_pairs_nonempty: "ps \<noteq> [] \<Longrightarrow> serialize_pairs ps \<noteq> []"
  unfolding serialize_pairs_def by (rule join_nonempty) auto

lemma append_spec_appended:
  "searchParams_append k v (spec_appended u qs) = spec_appended u (qs @ [(k, v)])"
  by (simp add: searchParams_append_def spec_appended_def Let_def serialize_pairs_nonempty)

lemma fold_append_spec_appended:
  "fold (\<lambda>e. searchParams_append k (f e)) vs (spec_appended u qs)
     = spec_appended u (qs @ map (\<lambda>e. (k, f e)) vs)"
  by (induction vs arbitrary: qs) (simp_all add: append_spec_appended)

lemma add_param_spec_appended:
  "add_param kv (spec_appended u qs) = spec_appended u (qs @ spec_query_pairs [kv])"
  by (cases kv; cases "snd kv")
     (auto simp: add_param_def spec_query_pairs_def append_spec_appended
        fold_append_spec_appended)

lemma spec_query_pairs_Cons:
  "spec_query_pairs (kv # ps) = spec_query_pairs [kv] @ spec_query_pairs ps"
  by (simp add: spec_query_pairs_def)

lemma fold_add_param_spec_appended:
  "fold add_param ps (spec_appended u qs) = spec_appended u (qs @ spec_query_pairs ps)"
proof (induction ps arbitrary: qs)
  case Nil
  then show ?case by (simp add: spec_query_pairs_def)
next
  case (Cons kv ps)
  have "fold add_param (kv # ps) (spec_appended u qs)
          = fold add_param ps (spec_appended u (qs @ spec_query_pairs [kv]))"
    by (simp add: add_param_spec_appended)
  also have "\<dots> = spec_appended u ((qs @ spec_query_pairs [kv]) @ spec_query_pairs ps)"
    by (rule Cons.IH)
  finally show ?case by (simp add: spec_query_pairs_Cons [of kv ps])
qed

lemma fold_add_param:
  "fold add_param ps u = spec_appended u (spec_query_pairs ps)"
  using fold_add_param_spec_appended [of ps u "[]"] by (simp add: spec_appended_def)

lemma buildUrl_absolute:
  assumes "URL_new P t None = Some u"
  shows "buildUrl P t opts ps = Some (URL_toString (spec_appended u (spec_query_pairs ps)))"
  using assms by (simp add: buildUrl_def Let_def fold_add_param split: option.splits)

lemma buildUrl_relative_with_base:
  assumes "URL_new P t None = None" "baseURL opts = Some b" "b \<noteq> []"
    and "URL_new P (strip_trailing_slash b @ ''/'' @ strip_leading_slash t) None = Some u"
  shows "buildUrl P t opts ps = Some (URL_toString (spec_appended u (spec_query_pairs ps)))"
  using assms by (simp add: buildUrl_def Let_def fold_add_param)

lemma example_query:
  "URL_toString (spec_appended api_test_users
      (spec_query_pairs [(''page'', JNum 1), (''tag'', JArr [JStr ''a'', JStr ''b''])]))
   = ''https://api.test/users?page=1&tag=a&tag=b''"
  by code_simp

section \<open>The retry delay\<close>

text \<open>
  Claim C10. A retry base delay of 0, given as \<open>retryDelay: 0\<close> in the options or as
  \<open>retry(count, 0)\<close> in the chain, does not configure a zero backoff: the constructor's
  \<open>options.retryDelay || 1000\<close> makes the instance's delay 1000 ms, and that is the delay
  the backoff sleeps are computed from.
\<close>

theorem zero_retryDelay_becomes_default:
  assumes "(NeatFetch P u opts = Some this \<and> retryDelay opts = Some 0)
           \<or> retry_mut P that count (Some 0) = Some this"
  shows "retryDelayMs this = 1000
         \<and> (\<forall>a w w'. attempt_once P this a w = Some (Recurse, w')
               \<longrightarrow> trace w' \<noteq> [] \<and> last (trace w') = Sleep (1000 * (a + 1)))"
proof -
  from assms have d: "retryDelayMs this = 1000"
    by (auto simp: retry_mut_def or_num_def dest!: NeatFetch_fields(8))
  show ?thesis
  proof (intro conjI allI impI)
    show "retryDelayMs this = 1000" by (rule d)
  next
    fix a w w'
    assume "attempt_once P this a w = Some (Recurse, w')"
    then obtain w2 where "w' = sleep (retryDelayMs this * (a + 1)) w2"
      using attempt_once_Recurse_sleep by blast
    with d show "trace w' \<noteq> []" "last (trace w') = Sleep (1000 * (a + 1))"
      by (simp_all add: trace_sleep)
  qed
qed

theorem zero_retryDelay_witness:
  "(\<exists>this w'. NeatFetch example_platform ''https://api.test/users''
                 (no_options\<lparr>retry := Some 1, retryDelay := Some 0\<rparr>) = Some this
        \<and> attempt_once example_platform this 0 world0 = Some (Recurse, w')
        \<and> retryDelayMs this = 1000 \<and> last (trace w') = Sleep 1000)
   \<and> (\<exists>that this. NeatFetch example_platform ''https://api.test/users'' no_options = Some that
        \<and> retry_mut example_platform that 2 (Some 0) = Some this
        \<and> retryDelayMs this = 1000)"
proof (rule conjI)
  let ?opts = "no_options\<lparr>retry := Some 1, retryDelay := Some 0\<rparr>"
  obtain this where c: "NeatFetch example_platform ''https://api.test/users'' ?opts = Some this"
    using NeatFetch_absolute [OF example_absolute] by blast
  have "(case NeatFetch example_platform ''https://api.test/users'' ?opts of
           None \<Rightarrow> False
         | Some i \<Rightarrow> (case attempt_once example_platform i 0 world0 of
                        Some (Recurse, w') \<Rightarrow> True | _ \<Rightarrow> False))"
    by code_simp
  with c obtain w' where r: "attempt_once example_platform this 0 world0 = Some (Recurse, w')"
    by (auto split: option.splits prod.splits step.splits)
  have o: "retryDelay ?opts = Some 0" by simp
  from zero_retryDelay_becomes_default [OF disjI1 [OF conjI [OF c o]]] r
  have "retryDelayMs this = 1000 \<and> last (trace w') = Sleep 1000" by auto
  with c r show "\<exists>this w'. NeatFetch example_platform ''https://api.test/users'' ?opts = Some this
        \<and> attempt_once example_platform this 0 world0 = Some (Recurse, w')
        \<and> retryDelayMs this = 1000 \<and> last (trace w') = Sleep 1000"
    by blast
next
  obtain that where c: "NeatFetch example_platform ''https://api.test/users'' no_options = Some that"
    using NeatFetch_absolute [OF example_absolute] by blast
  then have u: "url that = ''https://api.test/users''" by (rule NeatFetch_fields(1))
  obtain this where m: "retry_mut example_platform that 2 (Some 0) = Some this"
    unfolding retry_mut_def u using NeatFetch_absolute [OF example_absolute] by blast
  from zero_retryDelay_becomes_default [OF disjI2 [OF m]] c m
  show "\<exists>that this. NeatFetch example_platform ''https://api.test/users'' no_options = Some that
        \<and> retry_mut example_platform that 2 (Some 0) = Some this
        \<and> retryDelayMs this = 1000"
    by blast
qed

section \<open>Decoding an empty body\<close>

text \<open>
  Claim C8. When the run succeeded with a response whose status is 204 or whose
  \<open>Content-Length\<close> header is \<open>"0"\<close>, \<open>json\<close> returns \<open>[null, null]\<close> and does not read the
  body.
\<close>

theorem json_empty_body:
  assumes "execute P this w = (Fulfilled (Some r, None), this', w')"
    and "status r = 204 \<or> headers_get r ''Content-Length'' = Some ''0''"
  shows "json P this w
           = (Fulfilled (None, None),
              this'\<lparr>executionPromise := Some (Fulfilled (Some r, None))\<rparr>, w')"
  using assms by (auto simp: json_def with_response_def)

theorem json_empty_body_witness:
  "(\<exists>this t w'. NeatFetch example_platform ''https://api.test/users''
         (no_options\<lparr>fetchFn := Some (always_responds (plain_response 204 ''No Content''))\<rparr>) = Some this
       \<and> json example_platform this world0 = (Fulfilled (None, None), t, w'))
   \<and> (\<exists>this t w'. NeatFetch example_platform ''https://api.test/users''
         (no_options\<lparr>fetchFn := Some (always_responds empty_response)\<rparr>) = Some this
       \<and> json example_platform this world0 = (Fulfilled (None, None), t, w'))"
proof (rule conjI)
  let ?r = "plain_response 204 ''No Content''"
  let ?opts = "no_options\<lparr>fetchFn := Some (always_responds ?r)\<rparr>"
  obtain this where c: "NeatFetch example_platform ''https://api.test/users'' ?opts = Some this"
    using NeatFetch_absolute [OF example_absolute] by blast
  have f: "this_fetchFn this = always_responds ?r"
    using NeatFetch_fields(11) [OF c] by simp
  have okr: "ok ?r" "status ?r = 204" by (simp_all add: ok_def plain_response_def)
  from attempt_once_Resolved_ok [OF always_responds_call [OF f] okr(1),
      where w = world0 and P = example_platform and a = 0]
  obtain w1 where "attempt_once example_platform this 0 world0 = Some (Return (Some ?r, None), w1)"
    by blast
  from execute_fresh_Return [OF NeatFetch_fields(10) [OF c] this]
  have e: "execute example_platform this world0
     = (Fulfilled (Some ?r, None), this\<lparr>executionPromise := Some (Fulfilled (Some ?r, None))\<rparr>, w1)" .
  from json_empty_body [OF e] okr(2) c
  show "\<exists>this t w'. NeatFetch example_platform ''https://api.test/users'' ?opts = Some this
       \<and> json example_platform this world0 = (Fulfilled (None, None), t, w')"
    by blast
next
  let ?r = "empty_response"
  let ?opts = "no_options\<lparr>fetchFn := Some (always_responds ?r)\<rparr>"
  obtain this where c: "NeatFetch example_platform ''https://api.test/users'' ?opts = Some this"
    using NeatFetch_absolute [OF example_absolute] by blast
  have f: "this_fetchFn this = always_responds ?r"
    using NeatFetch_fields(11) [OF c] by simp
  have okr: "ok ?r" "headers_get ?r ''Content-Length'' = Some ''0''"
    by (simp_all add: ok_def empty_response_def headers_get_def toLowerCase_Content_Length)
  from attempt_once_Resolved_ok [OF always_responds_call [OF f] okr(1),
      where w = world0 and P = example_platform and a = 0]
  obtain w1 where "attempt_once example_platform this 0 world0 = Some (Return (Some ?r, None), w1)"
    by blast
  from execute_fresh_Return [OF NeatFetch_fields(10) [OF c] this]
  have e: "execute example_platform this world0
     = (Fulfilled (Some ?r, None), this\<lparr>executionPromise := Some (Fulfilled (Some ?r, None))\<rparr>, w1)" .
  from json_empty_body [OF e] okr(2) c
  show "\<exists>this t w'. NeatFetch example_platform ''https://api.test/users'' ?opts = Some this
       \<and> json example_platform this world0 = (Fulfilled (None, None), t, w')"
    by blast
qed

section \<open>Memoised execution\<close>

text \<open>
  Claim C5. On an instance that has not run yet, any non-empty sequence of consumptions
  (\<open>then\<close>, \<open>catch\<close>, \<open>finally\<close>, \<open>json\<close>, \<open>text\<close>, \<open>blob\<close>, \<open>arrayBuffer\<close>, \<open>formData\<close>,
  \<open>stream\<close>) leaves the world exactly as one run of the retry loop does: the transport
  calls and sleeps of a single run and nothing more. A later \<open>execute\<close> returns the promise
  of the first one and changes nothing. (A run that never settles is the pending promise;
  it is stored like any other and never started again.)
\<close>

theorem executes_once:
  assumes "executionPromise this = None" and "cs \<noteq> []"
  shows "snd (consume_all P cs this w) = after_one_run P this w
       \<and> (execute P this w = (p, this1, w1) \<longrightarrow> execute P this1 w2 = (p, this1, w2))"
proof
  from assms(2) obtain c cs' where cs: "cs = c # cs'" by (cases cs) auto
  obtain t1 w1 where s: "consume P c this w = (t1, w1)" by (cases "consume P c this w")
  from consume_world [OF s] assms(1)
  have 1: "executionPromise t1 \<noteq> None" "w1 = after_one_run P this w" by simp_all
  obtain t w' where a: "consume_all P cs' t1 w1 = (t, w')" by (cases "consume_all P cs' t1 w1")
  from consume_all_memoised [OF 1(1) a] 1(2) a s cs
  show "snd (consume_all P cs this w) = after_one_run P this w" by simp
next
  show "execute P this w = (p, this1, w1) \<longrightarrow> execute P this1 w2 = (p, this1, w2)"
  proof
    assume "execute P this w = (p, this1, w1)"
    from execute_world [OF this] have "executionPromise this1 = Some p" by simp
    then show "execute P this1 w2 = (p, this1, w2)" by (simp add: execute_def)
  qed
qed

theorem executes_once_witness:
  "\<exists>this p t w1. NeatFetch example_platform ''https://api.test/users''
         (no_options\<lparr>fetchFn := Some (always_responds (text_response ''hello''))\<rparr>) = Some this
     \<and> executionPromise this = None
     \<and> calls (snd (consume_all example_platform [JsonC, TextC, ThenC, StreamC] this world0)) = 1
     \<and> execute example_platform this world0 = (p, t, w1)
     \<and> execute example_platform t w1 = (p, t, w1)"
proof -
  let ?opts = "no_options\<lparr>fetchFn := Some (always_responds (text_response ''hello''))\<rparr>"
  obtain this where c: "NeatFetch example_platform ''https://api.test/users'' ?opts = Some this"
    using NeatFetch_absolute [OF example_absolute] by blast
  have n: "executionPromise this = None" by (rule NeatFetch_fields(10) [OF c])
  have "(case NeatFetch example_platform ''https://api.test/users'' ?opts of
           None \<Rightarrow> False
         | Some i \<Rightarrow> calls (after_one_run example_platform i world0) = 1)"
    by code_simp
  with c have k: "calls (after_one_run example_platform this world0) = 1" by simp
  obtain p t w1 where e: "execute example_platform this world0 = (p, t, w1)"
    by (cases "execute example_platform this world0")
  have ne: "[JsonC, TextC, ThenC, StreamC] \<noteq> []" by simp
  from executes_once [OF n ne, of example_platform world0 p t w1 w1] e k
  have "calls (snd (consume_all example_platform [JsonC, TextC, ThenC, StreamC] this world0)) = 1"
    and "execute example_platform t w1 = (p, t, w1)"
    by simp_all
  with c n e show ?thesis by blast
qed

section \<open>The timeout and the caller's signal\<close>

text \<open>
  Claim C4 says that with a timeout configured and a signal supplied by the caller each
  of the two can abort the attempt. In the code the request carries
  \<open>this.requestInit.signal || controller.signal\<close>: with a signal of the caller's, the
  controller's signal is not attached and the timer aborts a controller nobody listens
  to. With a caller's signal that is never aborted and a server that never answers, the
  run never settles, whatever the timeout.
\<close>

theorem caller_signal_displaces_timeout:
  assumes "signal (requestInit this) = Some s"
  shows "signal (requestInitWithSignal this w) = Some s
       \<and> (abort_time s = None \<and> this_fetchFn this = conforming_fetch server
          \<and> server (calls w) (finalUrl this) (requestInitWithSignal this w) = Silent
          \<longrightarrow> executeWithRetry P this a w = None)"
proof (intro conjI impI)
  from assms show s: "signal (requestInitWithSignal this w) = Some s"
    by (simp add: requestInitWithSignal_def)
  assume "abort_time s = None \<and> this_fetchFn this = conforming_fetch server
          \<and> server (calls w) (finalUrl this) (requestInitWithSignal this w) = Silent"
  with s have "call_fetch (this_fetchFn this) (finalUrl this) (requestInitWithSignal this w) w = None"
    by (simp add: call_fetch_def conforming_fetch_def abort_after_def)
  then show "executeWithRetry P this a w = None"
    by (simp add: executeWithRetry.simps attempt_once_None)
qed

theorem caller_signal_displaces_timeout_witness:
  "\<exists>this. NeatFetch example_platform ''https://api.test/users''
         (no_options\<lparr>signal := Some never_aborted,
                      fetchFn := Some (conforming_fetch silent_server),
                      timeout := Some 50\<rparr>) = Some this
     \<and> timeoutMs this = Some 50
     \<and> signal (requestInitWithSignal this world0) = Some never_aborted
     \<and> executeWithRetry example_platform this 0 world0 = None"
proof -
  let ?opts = "no_options\<lparr>signal := Some never_aborted,
                      fetchFn := Some (conforming_fetch silent_server), timeout := Some 50\<rparr>"
  obtain this where c: "NeatFetch example_platform ''https://api.test/users'' ?opts = Some this"
    using NeatFetch_absolute [OF example_absolute] by blast
  have f: "this_fetchFn this = conforming_fetch silent_server"
    using NeatFetch_fields(11) [OF c] by simp
  have t: "timeoutMs this = Some 50" "signal (requestInit this) = Some never_aborted"
    using NeatFetch_fields(5,6) [OF c] by simp_all
  have a: "abort_time never_aborted = None" by (simp add: never_aborted_def)
  have s: "silent_server (calls world0) (finalUrl this) (requestInitWithSignal this world0) = Silent"
    by (simp add: silent_server_def)
  from caller_signal_displaces_timeout [OF t(2), of world0 silent_server example_platform 0] a f s
  have "signal (requestInitWithSignal this world0) = Some never_aborted"
    and "executeWithRetry example_platform this 0 world0 = None"
    by simp_all
  with c t show ?thesis by blast
qed

section \<open>The body-bearing verbs\<close>

text \<open>
  Claim C6 says that \<open>post\<close>, \<open>put\<close> and \<open>patch\<close> carry the receiver's headers over to the
  new instance. In the code the options object is
  \<open>{ ...this.fetchOptions, method, body, headers }\<close> with the \<open>headers\<close> that
  \<open>serializeBody\<close> returned, which replaces the receiver's headers: the new instance has
  no header at all or only \<open>content-type: application/json\<close>. The method, the body and
  the other options are as the claim says.
\<close>

theorem body_verbs_drop_headers:
  assumes "NeatFetch P (url this) (body_verb_options P this m data) = Some inst"
  shows "(headersObj inst = [] \<or> headersObj inst = [(''content-type'', ''application/json'')])
       \<and> http_method (fetchOptions inst) = Some m
       \<and> body (fetchOptions inst) = fst (serializeBody P this data)
       \<and> signal (fetchOptions inst) = signal (fetchOptions this)
       \<and> fetchFn (fetchOptions inst) = fetchFn (fetchOptions this)
       \<and> params (fetchOptions inst) = params (fetchOptions this)
       \<and> timeout (fetchOptions inst) = timeout (fetchOptions this)
       \<and> retry (fetchOptions inst) = retry (fetchOptions this)
       \<and> retryDelay (fetchOptions inst) = retryDelay (fetchOptions this)
       \<and> baseURL (fetchOptions inst) = baseURL (fetchOptions this)"
proof -
  have "headers (body_verb_options P this m data)
          = map_option HeadersRecord (snd (serializeBody P this data))"
    by (simp add: body_verb_options_def split: prod.splits)
  with NeatFetch_fields(9) [OF assms]
  have "headersObj inst = normalizeHeaders (map_option HeadersRecord (snd (serializeBody P this data)))"
    by simp
  with serializeBody_headers [of P this data]
  have h: "headersObj inst = [] \<or> headersObj inst = [(''content-type'', ''application/json'')]"
    by (auto simp: normalizeHeaders_def fromEntries_def toLowerCase_content_type)
  have "fetchOptions inst = body_verb_options P this m data"
    by (rule NeatFetch_fields(2) [OF assms])
  with h show ?thesis
    by (simp add: body_verb_options_def split: prod.splits)
qed

theorem body_verbs_drop_headers_witness:
  "\<exists>this inst. NeatFetch example_platform ''https://api.test/users''
         (no_options\<lparr>headers := Some (HeadersRecord [(''Authorization'', ''Bearer t'')])\<rparr>) = Some this
     \<and> headersObj this = [(''authorization'', ''Bearer t'')]
     \<and> NeatFetch example_platform (url this)
          (body_verb_options example_platform this ''POST'' (JObj [(''a'', JNum 1)])) = Some inst
     \<and> headersObj inst = [(''content-type'', ''application/json'')]"
proof -
  let ?opts = "no_options\<lparr>headers := Some (HeadersRecord [(''Authorization'', ''Bearer t'')])\<rparr>"
  obtain this where c: "NeatFetch example_platform ''https://api.test/users'' ?opts = Some this"
    using NeatFetch_absolute [OF example_absolute] by blast
  have u: "url this = ''https://api.test/users''" by (rule NeatFetch_fields(1) [OF c])
  have "toLowerCase ''Authorization'' = ''authorization''" by code_simp
  then have h: "headersObj this = [(''authorization'', ''Bearer t'')]"
    using NeatFetch_fields(9) [OF c] by (simp add: normalizeHeaders_def fromEntries_def)
  obtain inst where i: "NeatFetch example_platform (url this)
          (body_verb_options example_platform this ''POST'' (JObj [(''a'', JNum 1)])) = Some inst"
    unfolding u using NeatFetch_absolute [OF example_absolute] by blast
  have "headersObj inst \<noteq> []"
    using NeatFetch_fields(9) [OF i] h
    by (simp add: body_verb_options_def serializeBody_def truthy_header_def
        normalizeHeaders_def fromEntries_def toLowerCase_content_type)
  with body_verbs_drop_headers [OF i]
  have "headersObj inst = [(''content-type'', ''application/json'')]" by blast
  with c h i show ?thesis by blast
qed

section \<open>URL composition\<close>

text \<open>
  Claim C9. The loop over the query parameters appends exactly the pairs the
  specification describes: none for \<open>null\<close> or \<open>undefined\<close>, one per element of an array
  in order, one for a scalar; the query is their percent-encoded serialisation. For an
  absolute target the result of \<open>buildUrl\<close> is the parsed target with these pairs
  appended. For the target \<open>users\<close>, the base \<open>https://api.test/\<close> and the parameters
  \<open>{page: 1, tag: ["a", "b"]}\<close>, on a platform whose parser rejects \<open>users\<close> alone and
  parses \<open>https://api.test/users\<close> into itself, the result is
  \<open>https://api.test/users?page=1&tag=a&tag=b\<close>.
\<close>

theorem buildUrl_query_parameters:
  "fold add_param ps u = spec_appended u (spec_query_pairs ps)
   \<and> (URL_new P t None = Some u
      \<longrightarrow> buildUrl P t opts ps = Some (URL_toString (spec_appended u (spec_query_pairs ps))))
   \<and> (URL_new P ''users'' None = None
       \<and> URL_new P ''https://api.test/users'' None = Some api_test_users
       \<and> baseURL opts = Some ''https://api.test/''
      \<longrightarrow> buildUrl P ''users'' opts [(''page'', JNum 1), (''tag'', JArr [JStr ''a'', JStr ''b''])]
            = Some ''https://api.test/users?page=1&tag=a&tag=b'')"
proof (intro conjI impI)
  show "fold add_param ps u = spec_appended u (spec_query_pairs ps)"
    by (rule fold_add_param)
  show "buildUrl P t opts ps = Some (URL_toString (spec_appended u (spec_query_pairs ps)))"
    if "URL_new P t None = Some u"
    using that by (rule buildUrl_absolute)
  assume a: "URL_new P ''users'' None = None
       \<and> URL_new P ''https://api.test/users'' None = Some api_test_users
       \<and> baseURL opts = Some ''https://api.test/''"
  have "buildUrl P ''users'' opts [(''page'', JNum 1), (''tag'', JArr [JStr ''a'', JStr ''b''])]
      = Some (URL_toString (spec_appended api_test_users
          (spec_query_pairs [(''page'', JNum 1), (''tag'', JArr [JStr ''a'', JStr ''b''])])))"
    by (rule buildUrl_relative_with_base [where b = "''https://api.test/''"])
       (use a in \<open>simp_all add: strip_trailing_slash_def strip_leading_slash_def\<close>)
  then show "buildUrl P ''users'' opts [(''page'', JNum 1), (''tag'', JArr [JStr ''a'', JStr ''b''])]
            = Some ''https://api.test/users?page=1&tag=a&tag=b''"
    by (simp only: example_query)
qed

theorem buildUrl_query_parameters_witness:
  "URL_new example_platform ''users'' None = None
   \<and> URL_new example_platform ''https://api.test/users'' None = Some api_test_users
   \<and> buildUrl example_platform ''users'' (no_options\<lparr>baseURL := Some ''https://api.test/''\<rparr>)
        [(''page'', JNum 1), (''tag'', JArr [JStr ''a'', JStr ''b''])]
      = Some ''https://api.test/users?page=1&tag=a&tag=b''
   \<and> buildUrl example_platform ''https://api.test/users'' no_options
        [(''q'', JStr ''a b&c''), (''skip'', JNull), (''n'', JUndefined)]
      = Some ''https://api.test/users?q=a+b%26c''"
proof -
  have 1: "URL_new example_platform ''users'' None = None"
    by (simp add: example_platform_def simple_URL_new_def is_http_url_def)
  have 2: "URL_new example_platform ''https://api.test/users'' None = Some api_test_users"
    by code_simp
  have 3: "baseURL (no_options\<lparr>baseURL := Some ''https://api.test/''\<rparr>) = Some ''https://api.test/''"
    by simp
  note T = buildUrl_query_parameters [where P = example_platform]
  from T [where opts = "no_options\<lparr>baseURL := Some ''https://api.test/''\<rparr>"] 1 2 3
  have a: "buildUrl example_platform ''users'' (no_options\<lparr>baseURL := Some ''https://api.test/''\<rparr>)
        [(''page'', JNum 1), (''tag'', JArr [JStr ''a'', JStr ''b''])]
      = Some ''https://api.test/users?page=1&tag=a&tag=b''"
    by blast
  have q: "URL_toString (spec_appended api_test_users
             (spec_query_pairs [(''q'', JStr ''a b&c''), (''skip'', JNull), (''n'', JUndefined)]))
           = ''https://api.test/users?q=a+b%26c''"
    by code_simp
  from T [where t = "''https://api.test/users''" and u = api_test_users and opts = no_options
      and ps = "[(''q'', JStr ''a b&c''), (''skip'', JNull), (''n'', JUndefined)]"] 2
  have b: "buildUrl example_platform ''https://api.test/users'' no_options
        [(''q'', JStr ''a b&c''), (''skip'', JNull), (''n'', JUndefined)]
      = Some ''https://api.test/users?q=a+b%26c''"
    by (simp only: q)
  from 1 2 a b show ?thesis by blast
qed
section \<open>Retrying failed responses\<close>

text \<open>
  Claim C2 says that a response that is not ok is retried exactly when the attempts made
  so far are below the retry count and the status is at least 500 or is 429, so that a
  404 is never retried. The code does this for a response whose body has not been read:
  with \<open>retry = 2\<close> and a transport that always answers such a 500 the run makes three
  transport calls and ends in an error carrying status 500, and with \<open>retry = 3\<close> and a 404
  it makes one call and ends in an error carrying status 404. For a response whose body
  has been read, \<open>response.clone()\<close> throws inside the \<open>try\<close> block before the status is
  looked at; the \<open>catch\<close> block takes the \<open>TypeError\<close> for a transport failure and retries
  whenever attempts are left, whatever the status, and the final error carries no status.
\<close>

theorem retry_on_http_status:
  assumes c: "NeatFetch P u opts = Some this"
  shows "(call_fetch (this_fetchFn this) (finalUrl this) (requestInitWithSignal this w) w
            = Some (Resolved r, w1) \<and> \<not> ok r \<and> \<not> bodyUsed r
          \<longrightarrow> ((\<exists>w'. attempt_once P this attempt w = Some (Recurse, w'))
               \<longleftrightarrow> (attempt < retryCount this \<and> (500 \<le> status r \<or> status r = 429))))
       \<and> (retry opts = Some 2 \<and> always_status (this_fetchFn this) 500
          \<longrightarrow> (\<exists>e w'. executeWithRetry P this 0 w = Some (Inr (None, Some (Err e)), w')
                 \<and> err_status e = Some 500 \<and> calls w' = calls w + 3))
       \<and> (retry opts = Some 3 \<and> always_status (this_fetchFn this) 404
          \<longrightarrow> (\<exists>e w'. executeWithRetry P this 0 w = Some (Inr (None, Some (Err e)), w')
                 \<and> err_status e = Some 404 \<and> calls w' = calls w + 1))
       \<and> (call_fetch (this_fetchFn this) (finalUrl this) (requestInitWithSignal this w) w
            = Some (Resolved r, w1) \<and> \<not> ok r \<and> bodyUsed r
          \<longrightarrow> ((\<exists>w'. attempt_once P this attempt w = Some (Recurse, w'))
                 \<longleftrightarrow> attempt < retryCount this)
              \<and> (\<not> attempt < retryCount this
                 \<longrightarrow> (\<exists>e. attempt_once P this attempt w = Some (Return (None, Some (Err e)), w1)
                        \<and> name e = ''TypeError'' \<and> err_status e = None)))"
proof (intro conjI impI)
  assume "call_fetch (this_fetchFn this) (finalUrl this) (requestInitWithSignal this w) w
            = Some (Resolved r, w1) \<and> \<not> ok r \<and> \<not> bodyUsed r"
  then show "(\<exists>w'. attempt_once P this attempt w = Some (Recurse, w'))
               \<longleftrightarrow> (attempt < retryCount this \<and> (500 \<le> status r \<or> status r = 429))"
    by (auto simp: attempt_once_Resolved)
next
  assume a: "retry opts = Some 2 \<and> always_status (this_fetchFn this) 500"
  with NeatFetch_fields(7) [OF c] have n: "retryCount this = 2" by (simp add: or_num_def)
  from a have "always_status (this_fetchFn this) 500" by simp
  from run_always_retried [OF this, of 0 P w] n
  show "\<exists>e w'. executeWithRetry P this 0 w = Some (Inr (None, Some (Err e)), w')
          \<and> err_status e = Some 500 \<and> calls w' = calls w + 3"
    by (simp add: eval_nat_numeral)
next
  assume a: "retry opts = Some 3 \<and> always_status (this_fetchFn this) 404"
  then have "always_status (this_fetchFn this) 404" by simp
  from run_not_retried [OF this, of P 0 w]
  show "\<exists>e w'. executeWithRetry P this 0 w = Some (Inr (None, Some (Err e)), w')
          \<and> err_status e = Some 404 \<and> calls w' = calls w + 1"
    by simp
next
  assume u: "call_fetch (this_fetchFn this) (finalUrl this) (requestInitWithSignal this w) w
            = Some (Resolved r, w1) \<and> \<not> ok r \<and> bodyUsed r"
  then have e: "attempt_once P this attempt w
      = catch_block this attempt (Some (Err (TypeError ''Response body is already used''))) w1"
    by (simp add: attempt_once_Resolved_used)
  show "(\<exists>w'. attempt_once P this attempt w = Some (Recurse, w')) \<longleftrightarrow> attempt < retryCount this"
    by (simp add: e catch_block_Some name_TypeError)
  show "\<exists>e. attempt_once P this attempt w = Some (Return (None, Some (Err e)), w1)
          \<and> name e = ''TypeError'' \<and> err_status e = None"
    if "\<not> attempt < retryCount this"
    using that by (simp add: e catch_block_Some name_TypeError err_status_TypeError)
qed

theorem retry_on_http_status_witness:
  "(\<exists>this. NeatFetch example_platform ''https://api.test/users''
        (no_options\<lparr>fetchFn := Some (always_responds (plain_response 500 ''Internal Server Error'')),
                     retry := Some 2\<rparr>) = Some this
      \<and> (\<exists>w'. attempt_once example_platform this 0 world0 = Some (Recurse, w'))
      \<and> (\<exists>e w'. executeWithRetry example_platform this 0 world0
                   = Some (Inr (None, Some (Err e)), w')
            \<and> err_status e = Some 500 \<and> calls w' = 3))
   \<and> (\<exists>this e w'. NeatFetch example_platform ''https://api.test/users''
        (no_options\<lparr>fetchFn := Some (always_responds (plain_response 404 ''Not Found'')),
                     retry := Some 3\<rparr>) = Some this
      \<and> executeWithRetry example_platform this 0 world0 = Some (Inr (None, Some (Err e)), w')
      \<and> err_status e = Some 404 \<and> calls w' = 1)
   \<and> (\<exists>this. NeatFetch example_platform ''https://api.test/users''
        (no_options\<lparr>fetchFn := Some (always_responds (read_response 404 ''Not Found'')),
                     retry := Some 1\<rparr>) = Some this
      \<and> (\<exists>w'. attempt_once example_platform this 0 world0 = Some (Recurse, w'))
      \<and> (\<exists>e w1. attempt_once example_platform this 1 world0
                   = Some (Return (None, Some (Err e)), w1)
            \<and> name e = ''TypeError'' \<and> err_status e = None))"
proof (intro conjI)
  let ?r = "plain_response 500 ''Internal Server Error''"
  let ?opts = "no_options\<lparr>fetchFn := Some (always_responds ?r), retry := Some 2\<rparr>"
  obtain this where c: "NeatFetch example_platform ''https://api.test/users'' ?opts = Some this"
    using NeatFetch_absolute [OF example_absolute] by blast
  have f: "this_fetchFn this = always_responds ?r"
    using NeatFetch_fields(11) [OF c] by simp
  have n: "retryCount this = 2"
    using NeatFetch_fields(7) [OF c] by (simp add: or_num_def)
  have a: "always_status (this_fetchFn this) 500"
    by (simp add: f always_status_def always_responds_def plain_response_def)
  let ?w1 = "world0\<lparr>now := now world0 + 10,
      trace := trace world0 @ [Fetch (finalUrl this) (requestInitWithSignal this world0)]\<rparr>"
  have cf: "call_fetch (this_fetchFn this) (finalUrl this) (requestInitWithSignal this world0)
              world0 = Some (Resolved ?r, ?w1)"
    by (rule always_responds_call [OF f])
  have nok: "\<not> ok ?r" "500 \<le> status ?r" "\<not> bodyUsed ?r"
    by (simp_all add: ok_def plain_response_def)
  note T = retry_on_http_status [OF c, of world0 ?r ?w1 0]
  from T cf nok n have 1: "\<exists>w'. attempt_once example_platform this 0 world0 = Some (Recurse, w')"
    by simp
  from T a have 2: "\<exists>e w'. executeWithRetry example_platform this 0 world0
        = Some (Inr (None, Some (Err e)), w') \<and> err_status e = Some 500 \<and> calls w' = 3"
    by (simp add: calls_world0)
  from c 1 2 show "\<exists>this. NeatFetch example_platform ''https://api.test/users'' ?opts = Some this
      \<and> (\<exists>w'. attempt_once example_platform this 0 world0 = Some (Recurse, w'))
      \<and> (\<exists>e w'. executeWithRetry example_platform this 0 world0
                   = Some (Inr (None, Some (Err e)), w')
            \<and> err_status e = Some 500 \<and> calls w' = 3)"
    by blast
next
  let ?r = "plain_response 404 ''Not Found''"
  let ?opts = "no_options\<lparr>fetchFn := Some (always_responds ?r), retry := Some 3\<rparr>"
  obtain this where c: "NeatFetch example_platform ''https://api.test/users'' ?opts = Some this"
    using NeatFetch_absolute [OF example_absolute] by blast
  have f: "this_fetchFn this = always_responds ?r"
    using NeatFetch_fields(11) [OF c] by simp
  have a: "always_status (this_fetchFn this) 404"
    by (simp add: f always_status_def always_responds_def plain_response_def)
  from retry_on_http_status [OF c, of world0 ?r world0 0] a
  have "\<exists>e w'. executeWithRetry example_platform this 0 world0
        = Some (Inr (None, Some (Err e)), w') \<and> err_status e = Some 404 \<and> calls w' = 1"
    by (simp add: calls_world0)
  with c show "\<exists>this e w'. NeatFetch example_platform ''https://api.test/users'' ?opts = Some this
      \<and> executeWithRetry example_platform this 0 world0 = Some (Inr (None, Some (Err e)), w')
      \<and> err_status e = Some 404 \<and> calls w' = 1"
    by blast
next
  let ?r = "read_response 404 ''Not Found''"
  let ?opts = "no_options\<lparr>fetchFn := Some (always_responds ?r), retry := Some 1\<rparr>"
  obtain this where c: "NeatFetch example_platform ''https://api.test/users'' ?opts = Some this"
    using NeatFetch_absolute [OF example_absolute] by blast
  have f: "this_fetchFn this = always_responds ?r"
    using NeatFetch_fields(11) [OF c] by simp
  have n: "retryCount this = 1"
    using NeatFetch_fields(7) [OF c] by (simp add: or_num_def)
  let ?w1 = "world0\<lparr>now := now world0 + 10,
      trace := trace world0 @ [Fetch (finalUrl this) (requestInitWithSignal this world0)]\<rparr>"
  have cf: "call_fetch (this_fetchFn this) (finalUrl this) (requestInitWithSignal this world0)
              world0 = Some (Resolved ?r, ?w1)"
    by (rule always_responds_call [OF f])
  have nok: "\<not> ok ?r" "bodyUsed ?r"
    by (simp_all add: ok_def read_response_def)
  from retry_on_http_status [OF c, of world0 ?r ?w1 0] cf nok n
  have 1: "\<exists>w'. attempt_once example_platform this 0 world0 = Some (Recurse, w')"
    by simp
  from retry_on_http_status [OF c, of world0 ?r ?w1 1] cf nok n
  have 2: "\<exists>e w1. attempt_once example_platform this 1 world0
                   = Some (Return (None, Some (Err e)), w1)
            \<and> name e = ''TypeError'' \<and> err_status e = None"
    by auto
  from c 1 2 show "\<exists>this. NeatFetch example_platform ''https://api.test/users'' ?opts = Some this
      \<and> (\<exists>w'. attempt_once example_platform this 0 world0 = Some (Recurse, w'))
      \<and> (\<exists>e w1. attempt_once example_platform this 1 world0
                   = Some (Return (None, Some (Err e)), w1)
            \<and> name e = ''TypeError'' \<and> err_status e = None)"
    by blast
qed

text \<open>
  The whole run at the failing input of claim C2: a 404 whose body has been read, one
  retry configured with a delay of 20 ms. Two transport calls with one backoff between
  them, and a \<open>TypeError\<close> without status at the end.
\<close>

lemma read_body_404_is_retried:
  "(case NeatFetch example_platform ''https://api.test/users''
           (no_options\<lparr>fetchFn := Some (always_responds (read_response 404 ''Not Found'')),
                        retry := Some 1, retryDelay := Some 20\<rparr>) of
      None \<Rightarrow> False
    | Some this \<Rightarrow>
        (case executeWithRetry example_platform this 0 world0 of
           Some (Inr (None, Some (Err e)), w) \<Rightarrow>
             name e = ''TypeError'' \<and> err_status e = None \<and> calls w = 2
             \<and> backoffs (trace w) = [20] \<and> now w = 40
         | _ \<Rightarrow> False))"
  by code_simp

section \<open>Retrying transport failures\<close>

text \<open>
  Claim C3, as the code has it. When the transport call throws a value other than \<open>null\<close>
  or \<open>undefined\<close>, the attempt is retried exactly when the attempts made so far are below
  the retry count and the name of the thrown value is not \<open>AbortError\<close>; otherwise the
  value is returned in the error slot. The code does not ask which signal aborted, only
  for the name. An abort by the internal per-attempt timer carries the \<open>AbortError\<close> and
  ends the run, whatever retry budget is left. An abort by the caller's own signal ends
  the run when its reason is named \<open>AbortError\<close>, and is retried like any other failure
  when the caller aborted with a reason of another name.
\<close>

theorem retry_decided_by_error_name:
  "(call_fetch (this_fetchFn this) (finalUrl this) (requestInitWithSignal this w) w
      = Some (Threw (Some x), w1)
    \<longrightarrow> ((\<exists>w'. attempt_once P this attempt w = Some (Recurse, w'))
         \<longleftrightarrow> (attempt < retryCount this \<and> name_of x \<noteq> Some ''AbortError''))
        \<and> (\<not> (attempt < retryCount this \<and> name_of x \<noteq> Some ''AbortError'')
           \<longrightarrow> attempt_once P this attempt w = Some (Return (None, Some x), w1)))
   \<and> (signal (requestInit this) = None \<and> timeoutMs this = Some ms \<and> ms \<noteq> 0
       \<and> this_fetchFn this = conforming_fetch server
       \<and> server (calls w) (finalUrl this) (requestInitWithSignal this w) = Silent
      \<longrightarrow> (\<exists>w2. attempt_once P this attempt w
                  = Some (Return (None, Some (Err AbortError)), w2)))
   \<and> (signal (requestInit this) = Some s \<and> abort_time s = Some t \<and> reason s = Some y
       \<and> this_fetchFn this = conforming_fetch server
       \<and> server (calls w) (finalUrl this) (requestInitWithSignal this w) = Silent
      \<longrightarrow> ((\<exists>w'. attempt_once P this attempt w = Some (Recurse, w'))
           \<longleftrightarrow> (attempt < retryCount this \<and> name_of y \<noteq> Some ''AbortError''))
          \<and> (name_of y = Some ''AbortError''
             \<longrightarrow> (\<exists>w2. attempt_once P this attempt w = Some (Return (None, Some y), w2))))"
proof (intro conjI impI)
  assume a: "call_fetch (this_fetchFn this) (finalUrl this) (requestInitWithSignal this w) w
            = Some (Threw (Some x), w1)"
  show "(\<exists>w'. attempt_once P this attempt w = Some (Recurse, w'))
         \<longleftrightarrow> (attempt < retryCount this \<and> name_of x \<noteq> Some ''AbortError'')"
    by (auto simp: attempt_once_Threw [OF a] catch_block_Some)
  show "attempt_once P this attempt w = Some (Return (None, Some x), w1)"
    if "\<not> (attempt < retryCount this \<and> name_of x \<noteq> Some ''AbortError'')"
    using that by (auto simp: attempt_once_Threw [OF a] catch_block_Some)
next
  assume "signal (requestInit this) = None \<and> timeoutMs this = Some ms \<and> ms \<noteq> 0
       \<and> this_fetchFn this = conforming_fetch server
       \<and> server (calls w) (finalUrl this) (requestInitWithSignal this w) = Silent"
  then obtain w2 where
    "call_fetch (this_fetchFn this) (finalUrl this) (requestInitWithSignal this w) w
       = Some (Threw (Some (Err AbortError)), w2)"
    using timeout_abort_call by blast
  then show "\<exists>w2. attempt_once P this attempt w
                  = Some (Return (None, Some (Err AbortError)), w2)"
    by (simp add: attempt_once_Threw catch_block_Some name_AbortError)
next
  assume a: "signal (requestInit this) = Some s \<and> abort_time s = Some t \<and> reason s = Some y
       \<and> this_fetchFn this = conforming_fetch server
       \<and> server (calls w) (finalUrl this) (requestInitWithSignal this w) = Silent"
  then obtain w2 where
    cf: "call_fetch (this_fetchFn this) (finalUrl this) (requestInitWithSignal this w) w
       = Some (Threw (Some y), w2)"
    using caller_abort_call [of this s t server w] by auto
  show "(\<exists>w'. attempt_once P this attempt w = Some (Recurse, w'))
           \<longleftrightarrow> (attempt < retryCount this \<and> name_of y \<noteq> Some ''AbortError'')"
    by (auto simp: attempt_once_Threw [OF cf] catch_block_Some)
  show "\<exists>w2. attempt_once P this attempt w = Some (Return (None, Some y), w2)"
    if "name_of y = Some ''AbortError''"
    using that by (simp add: attempt_once_Threw [OF cf] catch_block_Some)
qed

theorem retry_decided_by_error_name_witness:
  "(\<exists>this w1. NeatFetch example_platform ''https://api.test/users''
                 (no_options\<lparr>retry := Some 1\<rparr>) = Some this
       \<and> call_fetch (this_fetchFn this) (finalUrl this) (requestInitWithSignal this world0) world0
            = Some (Threw (Some (Err (TypeError ''fetch failed''))), w1)
       \<and> (\<exists>w'. attempt_once example_platform this 0 world0 = Some (Recurse, w'))
       \<and> attempt_once example_platform this 1 world0
            = Some (Return (None, Some (Err (TypeError ''fetch failed''))), w1))
   \<and> (\<exists>this w2. NeatFetch example_platform ''https://api.test/users''
                 (no_options\<lparr>fetchFn := Some (conforming_fetch silent_server),
                              timeout := Some 50, retry := Some 2\<rparr>) = Some this
       \<and> attempt_once example_platform this 0 world0
            = Some (Return (None, Some (Err AbortError)), w2))
   \<and> (\<exists>this w2. NeatFetch example_platform ''https://api.test/users''
                 (no_options\<lparr>signal := Some (aborted_with (Some (Err AbortError))),
                              fetchFn := Some (conforming_fetch silent_server),
                              retry := Some 2\<rparr>) = Some this
       \<and> attempt_once example_platform this 0 world0
            = Some (Return (None, Some (Err AbortError)), w2))
   \<and> (\<exists>this w'. NeatFetch example_platform ''https://api.test/users''
                 (no_options\<lparr>signal := Some (aborted_with (Some (Err TimeoutError))),
                              fetchFn := Some (conforming_fetch silent_server),
                              retry := Some 2\<rparr>) = Some this
       \<and> attempt_once example_platform this 0 world0 = Some (Recurse, w'))"
proof (intro conjI)
  let ?opts = "no_options\<lparr>retry := Some 1\<rparr>"
  let ?e = "Err (TypeError ''fetch failed'')"
  obtain this where c: "NeatFetch example_platform ''https://api.test/users'' ?opts = Some this"
    using NeatFetch_absolute [OF example_absolute] by blast
  have f: "this_fetchFn this = network_down"
    using NeatFetch_fields(11) [OF c] by (simp add: no_options_def example_platform_def)
  have n: "retryCount this = 1"
    using NeatFetch_fields(7) [OF c] by (simp add: or_num_def)
  have t: "timeoutMs this = None" "signal (requestInit this) = None"
    using NeatFetch_fields(5,6) [OF c] by (simp_all add: no_options_def)
  let ?w1 = "world0\<lparr>now := now world0 + max 0 0,
      trace := trace world0 @ [Fetch (finalUrl this) (requestInitWithSignal this world0)]\<rparr>"
  have "abort_after world0 (requestInitWithSignal this world0) = None"
    using t by (simp add: abort_after_def requestInitWithSignal_def controller_signal_def)
  then have cf: "call_fetch (this_fetchFn this) (finalUrl this)
       (requestInitWithSignal this world0) world0 = Some (Threw (Some ?e), ?w1)"
    by (simp add: f network_down_def call_fetch_def conforming_fetch_def)
  have nm: "name_of ?e \<noteq> Some ''AbortError''" by (simp add: name_TypeError)
  from retry_decided_by_error_name
    [where this = this and w = world0 and x = "?e" and ?w1.0 = ?w1 and P = example_platform
       and attempt = 0] cf n nm
  have 1: "\<exists>w'. attempt_once example_platform this 0 world0 = Some (Recurse, w')"
    by simp
  from retry_decided_by_error_name
    [where this = this and w = world0 and x = "?e" and ?w1.0 = ?w1 and P = example_platform
       and attempt = 1] cf n
  have 2: "attempt_once example_platform this 1 world0 = Some (Return (None, Some ?e), ?w1)"
    by simp
  from c cf 1 2 show "\<exists>this w1. NeatFetch example_platform ''https://api.test/users'' ?opts = Some this
       \<and> call_fetch (this_fetchFn this) (finalUrl this) (requestInitWithSignal this world0) world0
            = Some (Threw (Some ?e), w1)
       \<and> (\<exists>w'. attempt_once example_platform this 0 world0 = Some (Recurse, w'))
       \<and> attempt_once example_platform this 1 world0 = Some (Return (None, Some ?e), w1)"
    by blast
next
  let ?opts = "no_options\<lparr>fetchFn := Some (conforming_fetch silent_server),
                              timeout := Some 50, retry := Some 2\<rparr>"
  obtain this where c: "NeatFetch example_platform ''https://api.test/users'' ?opts = Some this"
    using NeatFetch_absolute [OF example_absolute] by blast
  have f: "this_fetchFn this = conforming_fetch silent_server"
    using NeatFetch_fields(11) [OF c] by simp
  have t: "timeoutMs this = Some 50" "signal (requestInit this) = None"
    using NeatFetch_fields(5,6) [OF c] by (simp_all add: no_options_def)
  have s: "silent_server (calls world0) (finalUrl this) (requestInitWithSignal this world0) = Silent"
    by (simp add: silent_server_def)
  from retry_decided_by_error_name
    [where this = this and w = world0 and P = example_platform and attempt = 0 and ms = 50
       and server = silent_server] t f s
  have "\<exists>w2. attempt_once example_platform this 0 world0
           = Some (Return (None, Some (Err AbortError)), w2)"
    by simp
  with c show "\<exists>this w2. NeatFetch example_platform ''https://api.test/users'' ?opts = Some this
       \<and> attempt_once example_platform this 0 world0
            = Some (Return (None, Some (Err AbortError)), w2)"
    by blast
next
  let ?s = "aborted_with (Some (Err AbortError))"
  let ?opts = "no_options\<lparr>signal := Some ?s,
                              fetchFn := Some (conforming_fetch silent_server), retry := Some 2\<rparr>"
  obtain this where c: "NeatFetch example_platform ''https://api.test/users'' ?opts = Some this"
    using NeatFetch_absolute [OF example_absolute] by blast
  have f: "this_fetchFn this = conforming_fetch silent_server"
    using NeatFetch_fields(11) [OF c] by simp
  have t: "signal (requestInit this) = Some ?s"
    using NeatFetch_fields(5) [OF c] by simp
  have a: "abort_time ?s = Some 0" "reason ?s = Some (Err AbortError)"
    by (simp_all add: aborted_with_def)
  have s: "silent_server (calls world0) (finalUrl this) (requestInitWithSignal this world0) = Silent"
    by (simp add: silent_server_def)
  from retry_decided_by_error_name
    [where this = this and w = world0 and P = example_platform and attempt = 0 and s = ?s
       and t = 0 and y = "Err AbortError" and server = silent_server] t a f s
  have "\<exists>w2. attempt_once example_platform this 0 world0
           = Some (Return (None, Some (Err AbortError)), w2)"
    by (simp add: name_AbortError)
  with c show "\<exists>this w2. NeatFetch example_platform ''https://api.test/users'' ?opts = Some this
       \<and> attempt_once example_platform this 0 world0
            = Some (Return (None, Some (Err AbortError)), w2)"
    by blast
next
  let ?s = "aborted_with (Some (Err TimeoutError))"
  let ?opts = "no_options\<lparr>signal := Some ?s,
                              fetchFn := Some (conforming_fetch silent_server), retry := Some 2\<rparr>"
  obtain this where c: "NeatFetch example_platform ''https://api.test/users'' ?opts = Some this"
    using NeatFetch_absolute [OF example_absolute] by blast
  have f: "this_fetchFn this = conforming_fetch silent_server"
    using NeatFetch_fields(11) [OF c] by simp
  have n: "retryCount this = 2"
    using NeatFetch_fields(7) [OF c] by (simp add: or_num_def)
  have t: "signal (requestInit this) = Some ?s"
    using NeatFetch_fields(5) [OF c] by simp
  have a: "abort_time ?s = Some 0" "reason ?s = Some (Err TimeoutError)"
    by (simp_all add: aborted_with_def)
  have nm: "name_of (Err TimeoutError) \<noteq> Some ''AbortError''"
    by (simp add: TimeoutError_def)
  have s: "silent_server (calls world0) (finalUrl this) (requestInitWithSignal this world0) = Silent"
    by (simp add: silent_server_def)
  from retry_decided_by_error_name
    [where this = this and w = world0 and P = example_platform and attempt = 0 and s = ?s
       and t = 0 and y = "Err TimeoutError" and server = silent_server] t a f s n nm
  have "\<exists>w'. attempt_once example_platform this 0 world0 = Some (Recurse, w')"
    by simp
  with c show "\<exists>this w'. NeatFetch example_platform ''https://api.test/users'' ?opts = Some this
       \<and> attempt_once example_platform this 0 world0 = Some (Recurse, w')"
    by blast
qed

text \<open>
  Claim C3 as written says that an abort caused by the internal timeout is retried. With
  a timeout of 50 ms, two retries configured, no signal of the caller's and a server that
  never answers, the run makes one call and ends at 50 ms with the \<open>AbortError\<close>.
\<close>

theorem timeout_abort_not_retried_counterexample:
  "(case NeatFetch example_platform ''https://api.test/users''
           (no_options\<lparr>fetchFn := Some (conforming_fetch silent_server),
                        timeout := Some 50, retry := Some 2\<rparr>) of
      None \<Rightarrow> False
    | Some this \<Rightarrow>
        0 < retryCount this \<and> signal (requestInit this) = None
        \<and> map_option (\<lambda>(res, w). (res, now w, calls w)) (executeWithRetry example_platform this 0 world0)
            = Some (Inr (None, Some (Err AbortError)), 50, 1))"
  by code_simp

text \<open>
  A failure value that is \<open>null\<close> or \<open>undefined\<close> (a caller's \<open>abort(null)\<close>, say) is left
  out of claim C3 above. With attempts left the \<open>catch\<close> block throws on reading its name
  and the run rejects; with none left the run returns \<open>[null, null]\<close>.
\<close>

lemma null_failure:
  assumes "call_fetch (this_fetchFn this) (finalUrl this) (requestInitWithSignal this w) w
             = Some (Threw None, w1)"
  shows "attempt_once P this attempt w =
           (if attempt < retryCount this
            then Some (Throw (TypeError ''Cannot read properties of null (reading name)''), w1)
            else Some (Return (None, None), w1))"
  by (simp add: attempt_once_Threw [OF assms] catch_block_None)

lemma null_failure_runs:
  "(case NeatFetch example_platform ''https://api.test/users''
           (no_options\<lparr>signal := Some (aborted_with None),
                        fetchFn := Some (conforming_fetch silent_server)\<rparr>) of
      None \<Rightarrow> False
    | Some this \<Rightarrow>
        map_option fst (executeWithRetry example_platform this 0 world0) = Some (Inr (None, None)))
   \<and> (case NeatFetch example_platform ''https://api.test/users''
           (no_options\<lparr>signal := Some (aborted_with None),
                        fetchFn := Some (conforming_fetch silent_server), retry := Some 1\<rparr>) of
      None \<Rightarrow> False
    | Some this \<Rightarrow>
        map_option fst (executeWithRetry example_platform this 0 world0)
          = Some (Inl (TypeError ''Cannot read properties of null (reading name)'')))"
  by code_simp

section \<open>Linear backoff\<close>

lemma retry_after_wait_none:
  assumes "status r \<noteq> 429 \<or> headers_get r ''Retry-After'' = None
           \<or> (\<exists>ra. headers_get r ''Retry-After'' = Some ra \<and> retryAfterMs P w ra \<le> 0)"
  shows "retry_after_wait P r w = w"
  using assms by (auto simp: retry_after_wait_def headers_has_def split: option.splits)

lemma retry_after_wait_some:
  assumes "status r = 429" "headers_get r ''Retry-After'' = Some ra" "0 < retryAfterMs P w ra"
  shows "retry_after_wait P r w = sleep \<lfloor>retryAfterMs P w ra\<rfloor> w"
  using assms by (simp add: retry_after_wait_def headers_has_def)

lemma Recurse_after_response:
  assumes cf: "call_fetch (this_fetchFn this) (finalUrl this) (requestInitWithSignal this w) w
             = Some (Resolved r, w1)"
    and rc: "attempt_once P this a w = Some (Recurse, w2)"
  shows "w2 = sleep (retryDelayMs this * (a + 1))
                (if bodyUsed r then w1 else retry_after_wait P r w1)"
proof (cases "bodyUsed r")
  case True
  from rc have "\<not> ok r"
    using attempt_once_Resolved_ok [OF cf, of P a] by auto
  with rc True show ?thesis
    by (auto simp: attempt_once_Resolved_used [OF cf] catch_block_Some split: if_splits)
next
  case False
  with rc show ?thesis
    by (auto simp: attempt_once_Resolved [OF cf] split: if_splits)
qed

lemma Recurse_after_failure:
  assumes cf: "call_fetch (this_fetchFn this) (finalUrl this) (requestInitWithSignal this w) w
             = Some (Threw x, w1)"
    and rc: "attempt_once P this a w = Some (Recurse, w2)"
  shows "w2 = sleep (retryDelayMs this * (a + 1)) w1"
  using rc by (cases x) (auto simp: attempt_once_Threw [OF cf] catch_block_def split: if_splits)

text \<open>
  Claim C7, as the code has it. With a positive configured retry delay \<open>d\<close>, an attempt
  that decides to retry, after a throwing transport or after a failed response, sleeps
  \<open>d * N\<close> as the last thing before retry attempt \<open>N = attempt + 1\<close>; the clock advances
  by what the host's timer makes of \<open>d * N\<close>, which is \<open>d * N\<close> itself on a host whose timer
  waits as long as it is asked to. When the failed response is a 429 with an unread body
  and a \<open>Retry-After\<close> header that gives a positive wait, that wait is slept first, so the
  pause before the retry is the \<open>Retry-After\<close> wait plus \<open>d * N\<close>. Over a whole run the
  sleeps that stand immediately before the transport calls are \<open>d, 2 * d, 3 * d, \<dots>\<close>.
\<close>

theorem backoff_wait:
  assumes c: "NeatFetch P u opts = Some this" and d: "retryDelay opts = Some d" "0 < d"
    and rc: "attempt_once P this a w = Some (Recurse, w2)"
  shows "(call_fetch (this_fetchFn this) (finalUrl this) (requestInitWithSignal this w) w
            = Some (Threw x, w1)
          \<longrightarrow> trace w2 = trace w1 @ [Sleep (d * (a + 1))]
              \<and> now w2 = now w1 + max 0 (timer_wait w1 (d * (a + 1))))
       \<and> (call_fetch (this_fetchFn this) (finalUrl this) (requestInitWithSignal this w) w
            = Some (Resolved r, w1)
           \<and> (bodyUsed r \<or> status r \<noteq> 429 \<or> headers_get r ''Retry-After'' = None
               \<or> (\<exists>ra. headers_get r ''Retry-After'' = Some ra \<and> retryAfterMs P w1 ra \<le> 0))
          \<longrightarrow> trace w2 = trace w1 @ [Sleep (d * (a + 1))]
              \<and> now w2 = now w1 + max 0 (timer_wait w1 (d * (a + 1))))
       \<and> (call_fetch (this_fetchFn this) (finalUrl this) (requestInitWithSignal this w) w
            = Some (Resolved r, w1)
           \<and> \<not> bodyUsed r \<and> status r = 429 \<and> headers_get r ''Retry-After'' = Some ra
           \<and> 0 < retryAfterMs P w1 ra
          \<longrightarrow> trace w2 = trace w1 @ [Sleep \<lfloor>retryAfterMs P w1 ra\<rfloor>, Sleep (d * (a + 1))]
              \<and> now w2 = now w1 + max 0 (timer_wait w1 \<lfloor>retryAfterMs P w1 ra\<rfloor>)
                                + max 0 (timer_wait w1 (d * (a + 1))))
       \<and> executeWithRetry P this a w = executeWithRetry P this (a + 1) w2
       \<and> (executeWithRetry P this 0 w0 = Some (res, w')
          \<longrightarrow> backoffs (drop (length (trace w0)) (trace w'))
                = map (\<lambda>N. d * N) [1 .. int (calls w' - calls w0) - 1])"
proof (intro conjI impI)
  from d NeatFetch_fields(8) [OF c] have D: "retryDelayMs this = d"
    by (simp add: or_num_def)
  {
    assume cf: "call_fetch (this_fetchFn this) (finalUrl this) (requestInitWithSignal this w) w
            = Some (Threw x, w1)"
    from Recurse_after_failure [OF cf rc] D
    show "trace w2 = trace w1 @ [Sleep (d * (a + 1))]"
      and "now w2 = now w1 + max 0 (timer_wait w1 (d * (a + 1)))"
      by (simp_all add: trace_sleep now_sleep)
  }
  {
    assume h: "call_fetch (this_fetchFn this) (finalUrl this) (requestInitWithSignal this w) w
            = Some (Resolved r, w1)
           \<and> (bodyUsed r \<or> status r \<noteq> 429 \<or> headers_get r ''Retry-After'' = None
               \<or> (\<exists>ra. headers_get r ''Retry-After'' = Some ra \<and> retryAfterMs P w1 ra \<le> 0))"
    then have cf: "call_fetch (this_fetchFn this) (finalUrl this) (requestInitWithSignal this w) w
            = Some (Resolved r, w1)" by simp
    from h have "(if bodyUsed r then w1 else retry_after_wait P r w1) = w1"
      by (auto simp: retry_after_wait_none)
    with Recurse_after_response [OF cf rc] D
    have "w2 = sleep (d * (a + 1)) w1" by simp
    then show "trace w2 = trace w1 @ [Sleep (d * (a + 1))]"
      and "now w2 = now w1 + max 0 (timer_wait w1 (d * (a + 1)))"
      by (simp_all add: trace_sleep now_sleep)
  }
  {
    assume h: "call_fetch (this_fetchFn this) (finalUrl this) (requestInitWithSignal this w) w
            = Some (Resolved r, w1)
           \<and> \<not> bodyUsed r \<and> status r = 429 \<and> headers_get r ''Retry-After'' = Some ra
           \<and> 0 < retryAfterMs P w1 ra"
    then have cf: "call_fetch (this_fetchFn this) (finalUrl this) (requestInitWithSignal this w) w
            = Some (Resolved r, w1)" by simp
    from h have "retry_after_wait P r w1 = sleep \<lfloor>retryAfterMs P w1 ra\<rfloor> w1"
      by (simp add: retry_after_wait_some)
    with Recurse_after_response [OF cf rc] D h
    have "w2 = sleep (d * (a + 1)) (sleep \<lfloor>retryAfterMs P w1 ra\<rfloor> w1)" by simp
    then show "trace w2 = trace w1 @ [Sleep \<lfloor>retryAfterMs P w1 ra\<rfloor>, Sleep (d * (a + 1))]"
      and "now w2 = now w1 + max 0 (timer_wait w1 \<lfloor>retryAfterMs P w1 ra\<rfloor>)
                                + max 0 (timer_wait w1 (d * (a + 1)))"
      by (simp_all add: trace_sleep now_sleep timer_wait_sleep)
  }
  from rc show "executeWithRetry P this a w = executeWithRetry P this (a + 1) w2"
    by (simp add: executeWithRetry.simps)
  {
    assume "executeWithRetry P this 0 w0 = Some (res, w')"
    from run_backoffs [OF this] obtain u ri rest where
      t: "trace w' = trace w0 @ Fetch u ri # rest"
      and b: "backoffs (Fetch u ri # rest)
           = map (\<lambda>N. retryDelayMs this * N) [0 + 1 .. 0 + int (length (filter is_Fetch rest))]"
      by blast
    from t have n: "calls w' - calls w0 = Suc (length (filter is_Fetch rest))"
      by (simp add: calls_def)
    from t b D show "backoffs (drop (length (trace w0)) (trace w'))
                = map (\<lambda>N. d * N) [1 .. int (calls w' - calls w0) - 1]"
      unfolding n by simp
  }
qed

lemma timer_world0: "timer_wait world0 = node_timer"
  by (simp add: world0_def)

lemma now_world0: "now world0 = 0"
  by (simp add: world0_def)

lemma Number_5: "Number_js example_platform ''5'' = Some 5"
  by code_simp

lemma toLowerCase_Retry_After: "toLowerCase ''Retry-After'' = ''retry-after''"
  by code_simp

theorem backoff_wait_witness:
  "(\<exists>this w1 w2. NeatFetch example_platform ''https://api.test/users''
        (no_options\<lparr>retry := Some 2, retryDelay := Some 500\<rparr>) = Some this
      \<and> call_fetch (this_fetchFn this) (finalUrl this) (requestInitWithSignal this world0) world0
            = Some (Threw (Some (Err (TypeError ''fetch failed''))), w1)
      \<and> attempt_once example_platform this 1 world0 = Some (Recurse, w2)
      \<and> trace w2 = trace w1 @ [Sleep 1000] \<and> now w2 = now w1 + 1000)
   \<and> (\<exists>this w1 w2. NeatFetch example_platform ''https://api.test/users''
        (no_options\<lparr>fetchFn := Some (always_responds rate_limited),
                     retry := Some 1, retryDelay := Some 500\<rparr>) = Some this
      \<and> call_fetch (this_fetchFn this) (finalUrl this) (requestInitWithSignal this world0) world0
            = Some (Resolved rate_limited, w1)
      \<and> attempt_once example_platform this 0 world0 = Some (Recurse, w2)
      \<and> trace w2 = trace w1 @ [Sleep 5000, Sleep 500] \<and> now w2 = now w1 + 5000 + 500)
   \<and> (\<exists>this res w'. NeatFetch example_platform ''https://api.test/users''
        (no_options\<lparr>fetchFn := Some (always_responds (plain_response 500 ''Internal Server Error'')),
                     retry := Some 2, retryDelay := Some 500\<rparr>) = Some this
      \<and> executeWithRetry example_platform this 0 world0 = Some (res, w')
      \<and> calls w' = 3 \<and> backoffs (trace w') = [500, 1000])"
proof (intro conjI)
  let ?opts = "no_options\<lparr>retry := Some 2, retryDelay := Some 500\<rparr>"
  let ?e = "Err (TypeError ''fetch failed'')"
  obtain this where c: "NeatFetch example_platform ''https://api.test/users'' ?opts = Some this"
    using NeatFetch_absolute [OF example_absolute] by blast
  have f: "this_fetchFn this = network_down"
    using NeatFetch_fields(11) [OF c] by (simp add: no_options_def example_platform_def)
  have t: "timeoutMs this = None" "signal (requestInit this) = None"
    using NeatFetch_fields(5,6) [OF c] by (simp_all add: no_options_def)
  let ?w1 = "world0\<lparr>now := now world0 + max 0 0,
      trace := trace world0 @ [Fetch (finalUrl this) (requestInitWithSignal this world0)]\<rparr>"
  have "abort_after world0 (requestInitWithSignal this world0) = None"
    using t by (simp add: abort_after_def requestInitWithSignal_def controller_signal_def)
  then have cf: "call_fetch (this_fetchFn this) (finalUrl this)
       (requestInitWithSignal this world0) world0 = Some (Threw (Some ?e), ?w1)"
    by (simp add: f network_down_def call_fetch_def conforming_fetch_def)
  have "(case NeatFetch example_platform ''https://api.test/users'' ?opts of
           None \<Rightarrow> False
         | Some i \<Rightarrow> (case attempt_once example_platform i 1 world0 of
                        Some (Recurse, w') \<Rightarrow> True | _ \<Rightarrow> False))"
    by code_simp
  with c obtain w2 where r: "attempt_once example_platform this 1 world0 = Some (Recurse, w2)"
    by (auto split: option.splits prod.splits step.splits)
  have o: "retryDelay ?opts = Some 500" "(0::int) < 500" by simp_all
  from backoff_wait [OF c o r, where x = "Some ?e" and ?w1.0 = ?w1] cf
  have "trace w2 = trace ?w1 @ [Sleep 1000]" "now w2 = now ?w1 + 1000"
    by (simp_all add: timer_world0 node_timer_def)
  with c cf r show "\<exists>this w1 w2. NeatFetch example_platform ''https://api.test/users'' ?opts = Some this
      \<and> call_fetch (this_fetchFn this) (finalUrl this) (requestInitWithSignal this world0) world0
            = Some (Threw (Some ?e), w1)
      \<and> attempt_once example_platform this 1 world0 = Some (Recurse, w2)
      \<and> trace w2 = trace w1 @ [Sleep 1000] \<and> now w2 = now w1 + 1000"
    by blast
next
  let ?opts = "no_options\<lparr>fetchFn := Some (always_responds rate_limited),
                     retry := Some 1, retryDelay := Some 500\<rparr>"
  obtain this where c: "NeatFetch example_platform ''https://api.test/users'' ?opts = Some this"
    using NeatFetch_absolute [OF example_absolute] by blast
  have f: "this_fetchFn this = always_responds rate_limited"
    using NeatFetch_fields(11) [OF c] by simp
  let ?w1 = "world0\<lparr>now := now world0 + 10,
      trace := trace world0 @ [Fetch (finalUrl this) (requestInitWithSignal this world0)]\<rparr>"
  have cf: "call_fetch (this_fetchFn this) (finalUrl this) (requestInitWithSignal this world0)
              world0 = Some (Resolved rate_limited, ?w1)"
    by (rule always_responds_call [OF f])
  have "(case NeatFetch example_platform ''https://api.test/users'' ?opts of
           None \<Rightarrow> False
         | Some i \<Rightarrow> (case attempt_once example_platform i 0 world0 of
                        Some (Recurse, w') \<Rightarrow> True | _ \<Rightarrow> False))"
    by code_simp
  with c obtain w2 where r: "attempt_once example_platform this 0 world0 = Some (Recurse, w2)"
    by (auto split: option.splits prod.splits step.splits)
  have o: "retryDelay ?opts = Some 500" "(0::int) < 500" by simp_all
  have h: "\<not> bodyUsed rate_limited" "status rate_limited = 429"
    "headers_get rate_limited ''Retry-After'' = Some ''5''"
    by (simp_all add: rate_limited_def headers_get_def toLowerCase_Retry_After)
  have ms: "retryAfterMs example_platform ?w1 ''5'' = 5000"
    by (simp add: retryAfterMs_def Number_5)
  from backoff_wait [OF c o r, where r = rate_limited and ?w1.0 = ?w1 and ra = "''5''"] cf h ms
  have "trace w2 = trace ?w1 @ [Sleep 5000, Sleep 500]" "now w2 = now ?w1 + 5000 + 500"
    by (simp_all add: timer_world0 node_timer_def)
  with c cf r show "\<exists>this w1 w2. NeatFetch example_platform ''https://api.test/users'' ?opts = Some this
      \<and> call_fetch (this_fetchFn this) (finalUrl this) (requestInitWithSignal this world0) world0
            = Some (Resolved rate_limited, w1)
      \<and> attempt_once example_platform this 0 world0 = Some (Recurse, w2)
      \<and> trace w2 = trace w1 @ [Sleep 5000, Sleep 500] \<and> now w2 = now w1 + 5000 + 500"
    by blast
next
  let ?opts = "no_options\<lparr>fetchFn := Some (always_responds (plain_response 500 ''Internal Server Error'')),
                     retry := Some 2, retryDelay := Some 500\<rparr>"
  obtain this where c: "NeatFetch example_platform ''https://api.test/users'' ?opts = Some this"
    using NeatFetch_absolute [OF example_absolute] by blast
  have "(case NeatFetch example_platform ''https://api.test/users'' ?opts of
           None \<Rightarrow> False
         | Some i \<Rightarrow> (case executeWithRetry example_platform i 0 world0 of
                        None \<Rightarrow> False | Some (res, w') \<Rightarrow> calls w' = 3
                      \<and> (case attempt_once example_platform i 0 world0 of
                        Some (Recurse, w2) \<Rightarrow> True | _ \<Rightarrow> False)))"
    by code_simp
  with c obtain res w' w2 where
    r: "executeWithRetry example_platform this 0 world0 = Some (res, w')" and n: "calls w' = 3"
    and rc: "attempt_once example_platform this 0 world0 = Some (Recurse, w2)"
    by (auto split: option.splits prod.splits step.splits)
  have o: "retryDelay ?opts = Some 500" "(0::int) < 500" by simp_all
  from backoff_wait [OF c o rc, where ?w0.0 = world0 and res = res and w' = w'] r n
  have "backoffs (trace w') = [500, 1000]"
    by (simp add: calls_world0 trace_world0 upto_rec1)
  with c r n show "\<exists>this res w'. NeatFetch example_platform ''https://api.test/users'' ?opts = Some this
      \<and> executeWithRetry example_platform this 0 world0 = Some (res, w')
      \<and> calls w' = 3 \<and> backoffs (trace w') = [500, 1000]"
    by blast
qed

text \<open>
  Claim C7 as written says that the wait before retry attempt \<open>N\<close> equals \<open>d * N\<close> for
  retried HTTP-status failures too. A 429 with \<open>Retry-After: 5\<close>, retried with a delay of
  500 ms: between the arrival of the response and the first retry the code sleeps 5000
  and then 500, and the clock advances by 5500, not by 500.
\<close>

theorem retry_after_adds_to_wait_counterexample:
  "(case NeatFetch example_platform ''https://api.test/users''
           (no_options\<lparr>fetchFn := Some (always_responds rate_limited),
                        retry := Some 1, retryDelay := Some 500\<rparr>) of
      None \<Rightarrow> False
    | Some this \<Rightarrow>
        (case call_fetch (this_fetchFn this) (finalUrl this)
                (requestInitWithSignal this world0) world0 of
           Some (Resolved r, w1) \<Rightarrow>
             (case attempt_once example_platform this 0 world0 of
                Some (Recurse, w2) \<Rightarrow>
                  status r = 429 \<and> retryDelayMs this * 1 = 500
                  \<and> now w2 - now w1 = 5500
                  \<and> drop (length (trace w1)) (trace w2) = [Sleep 5000, Sleep 500]
              | _ \<Rightarrow> False)
         | _ \<Rightarrow> False))"
  by code_simp

section \<open>The two slots of a result\<close>



lemma polite_conforming_fetch:
  assumes "this_fetchFn this = conforming_fetch server"
    and "\<And>s. signal (requestInit this) = Some s \<Longrightarrow> reason s \<noteq> None"
  shows "polite this"
  using assms
  by (auto simp: polite_def conforming_fetch_def abort_after_def
        requestInitWithSignal_def controller_signal_def
      split: option.splits if_splits behaviour.splits)




text \<open>
  The proviso on the failure value is needed: a transport that fails with \<open>null\<close> makes the
  awaited instance resolve to \<open>[null, null]\<close> when no retry is left.
\<close>

lemma null_failure_both_empty:
  "(case NeatFetch example_platform ''https://api.test/users''
           (no_options\<lparr>fetchFn := Some (always_throws None), retry := Some 0\<rparr>) of
      None \<Rightarrow> False
    | Some this \<Rightarrow>
        (case then_op example_platform this (\<lambda>v. v) None world0 of
           (Fulfilled res, this', w') \<Rightarrow> res = (None, None)
         | _ \<Rightarrow> False))"
  by code_simp


end
